theory Spec2Isabelle
  imports Main "HOL-Library.Multiset"
begin

text \<open>
  A calendar widget for the browser: the calendar manager (date utilities, the builder of
  the month grid, the start of the calendar) and the classes \<open>CalendarDay\<close> and
  \<open>CalendarEvent\<close>. Of the DOM only the list of the day cells that the grid builder
  appends to its container is modelled; the methods that render are left out.
\<close>

section \<open>JavaScript values\<close>

text \<open>
  The fields of an event are dynamically typed: the constructor of \<open>CalendarEvent\<close>
  copies them from the raw data without any check, so each field may hold any value.
  The values modelled are the primitive ones, the numbers the integral ones; \<open>===\<close> on two values of this type is HOL equality.
\<close>

datatype jsval = JUndefined | JNull | JBool bool | JNum int | JStr string

datatype error = TypeError | ReferenceError

subsection \<open>Number to string\<close>

definition digitChar :: "nat \<Rightarrow> char" where
  "digitChar d = ''0123456789'' ! d"

fun natToString :: "nat \<Rightarrow> string" where
  "natToString n = (if n < 10 then [digitChar n] else natToString (n div 10) @ [digitChar (n mod 10)])"

declare natToString.simps [simp del]

definition numToString :: "int \<Rightarrow> string" where
  \<comment> \<open>\<open>Number.prototype.toString()\<close> on an integral number\<close>
  "numToString n = (if n < 0 then CHR ''-'' # natToString (nat (- n)) else natToString (nat n))"

definition toString :: "jsval \<Rightarrow> string" where
  \<comment> \<open>the string a template literal \<open>${v}\<close> inserts\<close>
  "toString v = (case v of
       JUndefined \<Rightarrow> ''undefined''
     | JNull \<Rightarrow> ''null''
     | JBool b \<Rightarrow> (if b then ''true'' else ''false'')
     | JNum n \<Rightarrow> numToString n
     | JStr s \<Rightarrow> s)"

section \<open>The event model: class CalendarEvent (src/js/classes.js)\<close>

text \<open>The field \<open>id\<close> is \<open>id_f\<close> and \<open>type\<close> is \<open>type_f\<close> here.\<close>

record CalendarEvent =
  id_f :: jsval
  name :: jsval
  description :: jsval
  date :: jsval
  startTime :: jsval
  endTime :: jsval
  type_f :: jsval
  difficulty :: jsval
  finished :: jsval

definition CalendarEvent_new :: "CalendarEvent \<Rightarrow> CalendarEvent" where
  \<comment> \<open>the constructor: nine assignments, one per field of the raw record\<close>
  "CalendarEvent_new eventData =
     \<lparr> id_f = id_f eventData, name = name eventData, description = description eventData,
       date = date eventData, startTime = startTime eventData, endTime = endTime eventData,
       type_f = type_f eventData, difficulty = difficulty eventData,
       finished = finished eventData \<rparr>"

definition updateEventInfo ::
  "CalendarEvent \<Rightarrow> CalendarEvent \<Rightarrow> string list \<Rightarrow> jsval \<times> CalendarEvent \<times> string list" where
  \<comment> \<open>\<open>this\<close>, the payload and the console; returns the (absent) return value, the
      mutated \<open>this\<close> and the console. The source has seven assignments: name, description,
      date, startTime, endTime, type, finished.\<close>
  "updateEventInfo this eventData console =
     (let this1 = this\<lparr>name := name eventData\<rparr>;
          this2 = this1\<lparr>description := description eventData\<rparr>;
          this3 = this2\<lparr>date := date eventData\<rparr>;
          this4 = this3\<lparr>startTime := startTime eventData\<rparr>;
          this5 = this4\<lparr>endTime := endTime eventData\<rparr>;
          this6 = this5\<lparr>type_f := type_f eventData\<rparr>;
          this7 = this6\<lparr>finished := finished eventData\<rparr>
      in (JUndefined, this7, console @ [''Updated CalendarEvent: '' @ toString (id_f this7)]))"

section \<open>The day summary: CalendarDay.calculateSummary\<close>

record Summary =
  earnedXP :: int
  totalXP :: int
  finishedTasks :: int
  totalTasks :: int
  totalEvents :: int

definition switchDifficulty :: "jsval \<Rightarrow> int \<Rightarrow> int \<times> int" where
  \<comment> \<open>the \<open>switch (obj.difficulty)\<close>: given \<open>totalXP\<close>, returns \<open>(XP, totalXP)\<close> after it\<close>
  "switchDifficulty d tot =
     (if d = JNum 1 then (150, tot + 150)
      else if d = JNum 2 then (400, tot + 400)
      else if d = JNum 3 then (750, tot + 750)
      else (0, tot))"

fun summaryLoop :: "CalendarEvent list \<Rightarrow> Summary \<Rightarrow> Summary" where
  \<comment> \<open>the \<open>for\<close> loop over \<open>this.eventList\<close>; the second argument holds the five locals\<close>
  "summaryLoop [] s = s"
| "summaryLoop (obj # rest) s =
     (if type_f obj = JStr ''event'' then summaryLoop rest (s\<lparr>totalEvents := totalEvents s + 1\<rparr>)
      else if type_f obj = JStr ''reminder'' then summaryLoop rest s
      else
        let s1 = (if type_f obj = JStr ''task'' then s\<lparr>totalTasks := totalTasks s + 1\<rparr> else s);
            (XP, tot) = switchDifficulty (difficulty obj) (totalXP s1);
            s2 = s1\<lparr>totalXP := tot\<rparr>;
            s3 = (if finished obj = JBool True
                  then s2\<lparr>earnedXP := earnedXP s2 + XP, finishedTasks := finishedTasks s2 + 1\<rparr>
                  else s2)
        in summaryLoop rest s3)"

definition calculateSummary :: "CalendarEvent list \<Rightarrow> Summary" where
  \<comment> \<open>the argument is the content of \<open>this.eventList\<close>, the only thing the method reads\<close>
  "calculateSummary eventList =
     summaryLoop eventList
       \<lparr> earnedXP = 0, totalXP = 0, finishedTasks = 0, totalTasks = 0, totalEvents = 0 \<rparr>"

definition difficultyXP :: "jsval \<Rightarrow> int" where
  \<comment> \<open>the difficulty table in the spec's words: 1 gives 150, 2 gives 400, 3 gives 750,
      any other value 0\<close>
  "difficultyXP d =
     (if d = JNum 1 then 150 else if d = JNum 2 then 400 else if d = JNum 3 then 750 else 0)"

definition reachesSwitch :: "CalendarEvent \<Rightarrow> bool" where
  \<comment> \<open>the events for which neither \<open>continue\<close> of the loop is taken\<close>
  "reachesSwitch e = (type_f e \<noteq> JStr ''event'' \<and> type_f e \<noteq> JStr ''reminder'')"

section \<open>Strings: trim, slice, parseInt\<close>

text \<open>
  Characters are the 8-bit ones of HOL; the white space and line terminators of ECMAScript
  among them are TAB, LF, VT, FF, CR, SP and NBSP.
\<close>

definition isWhiteSpace :: "char \<Rightarrow> bool" where
  "isWhiteSpace c = (c \<in> set [CHR 0x09, CHR 0x0A, CHR 0x0B, CHR 0x0C, CHR 0x0D, CHR 0x20, CHR 0xA0])"

definition trim :: "string \<Rightarrow> string" where
  "trim s = rev (dropWhile isWhiteSpace (rev (dropWhile isWhiteSpace s)))"

definition slice02 :: "string \<Rightarrow> string" where
  \<comment> \<open>\<open>s.slice(0,2)\<close>\<close>
  "slice02 s = take 2 s"

definition digitValue :: "char \<Rightarrow> nat" where
  \<comment> \<open>the value of a digit or letter; 36 for a character that is a digit in no radix\<close>
  "digitValue c =
     (let n = (of_char c :: nat) in
      if 48 \<le> n \<and> n \<le> 57 then n - 48
      else if 97 \<le> n \<and> n \<le> 122 then n - 87
      else if 65 \<le> n \<and> n \<le> 90 then n - 55
      else 36)"

definition parseInt :: "string \<Rightarrow> int option" where
  \<comment> \<open>\<open>parseInt(string)\<close> with no radix; \<open>None\<close> is NaN. The result is exact, as a
      double is for the strings of at most two characters the code passes.\<close>
  "parseInt inputString =
     (let S = dropWhile isWhiteSpace inputString;
          sign = (if S \<noteq> [] \<and> hd S = CHR ''-'' then - 1 else (1::int));
          S1 = (if S \<noteq> [] \<and> (hd S = CHR ''+'' \<or> hd S = CHR ''-'') then tl S else S);
          hex = (2 \<le> length S1 \<and> (take 2 S1 = ''0x'' \<or> take 2 S1 = ''0X''));
          R = (if hex then 16 else (10::nat));
          S2 = (if hex then drop 2 S1 else S1);
          Z = takeWhile (\<lambda>c. digitValue c < R) S2
      in if Z = [] then None
         else Some (sign * int (foldl (\<lambda>acc c. acc * R + digitValue c) 0 Z)))"

section \<open>The day model: CalendarDay.refreshEventList\<close>

subsection \<open>Method calls on a field\<close>

definition toStringMethod :: "jsval \<Rightarrow> error + string" where
  \<comment> \<open>\<open>v.toString()\<close>: reading a property of \<open>undefined\<close> or \<open>null\<close> raises\<close>
  "toStringMethod v =
     (case v of JUndefined \<Rightarrow> Inl TypeError | JNull \<Rightarrow> Inl TypeError | _ \<Rightarrow> Inr (toString v))"

definition sliceMethod :: "jsval \<Rightarrow> error + string" where
  \<comment> \<open>\<open>v.slice(0,2)\<close>: a string has the method; \<open>undefined\<close> and \<open>null\<close> have no
      properties, a number or a boolean has no \<open>slice\<close>, and the call raises\<close>
  "sliceMethod v = (case v of JStr s \<Rightarrow> Inr (slice02 s) | _ \<Rightarrow> Inl TypeError)"

subsection \<open>Array.prototype.filter and Array.prototype.sort\<close>

text \<open>
  The callback of \<open>filter\<close> and the comparator of \<open>sort\<close> may raise; the call then raises
  and the array it was called on is as before.

  \<open>sort\<close> is stable (ECMAScript 2019). With a consistent comparator every stable sort
  returns the same array, the one the insertion sort below returns. With an inconsistent
  comparator the standard leaves the order to the engine, and the insertion sort gives one
  of the orders an engine may give. A comparison \<open>cmp x y \<le> 0\<close> keeps \<open>x\<close> before \<open>y\<close>.
  An array of fewer than two elements is sorted without a call of the comparator; in an
  array of two or more, every element is compared at least once.
\<close>

fun filter_js :: "('a \<Rightarrow> error + bool) \<Rightarrow> 'a list \<Rightarrow> error + 'a list" where
  "filter_js p [] = Inr []"
| "filter_js p (x # xs) =
     (case p x of
        Inl e \<Rightarrow> Inl e
      | Inr b \<Rightarrow>
          (case filter_js p xs of
             Inl e \<Rightarrow> Inl e
           | Inr ys \<Rightarrow> Inr (if b then x # ys else ys)))"

fun insort_js :: "('a \<Rightarrow> 'a \<Rightarrow> error + int) \<Rightarrow> 'a \<Rightarrow> 'a list \<Rightarrow> error + 'a list" where
  "insort_js cmp x [] = Inr [x]"
| "insort_js cmp x (y # ys) =
     (case cmp x y of
        Inl e \<Rightarrow> Inl e
      | Inr c \<Rightarrow>
          if c \<le> 0 then Inr (x # y # ys)
          else (case insort_js cmp x ys of Inl e \<Rightarrow> Inl e | Inr zs \<Rightarrow> Inr (y # zs)))"

fun sort_js :: "('a \<Rightarrow> 'a \<Rightarrow> error + int) \<Rightarrow> 'a list \<Rightarrow> error + 'a list" where
  "sort_js cmp [] = Inr []"
| "sort_js cmp (x # xs) =
     (case sort_js cmp xs of Inl e \<Rightarrow> Inl e | Inr ys \<Rightarrow> insort_js cmp x ys)"

subsection \<open>Numbers with NaN\<close>

type_synonym number = "int option"

definition numLess :: "number \<Rightarrow> number \<Rightarrow> bool" where
  \<comment> \<open>\<open>a < b\<close>: false as soon as one side is NaN\<close>
  "numLess a b = (case a of None \<Rightarrow> False | Some x \<Rightarrow> (case b of None \<Rightarrow> False | Some y \<Rightarrow> x < y))"

definition numGreater :: "number \<Rightarrow> number \<Rightarrow> bool" where
  "numGreater a b = numLess b a"

definition compareStartTime :: "CalendarEvent \<Rightarrow> CalendarEvent \<Rightarrow> error + int" where
  \<comment> \<open>the arrow function passed to \<open>sort\<close>\<close>
  "compareStartTime a b =
     (case sliceMethod (startTime a) of
        Inl e \<Rightarrow> Inl e
      | Inr sa \<Rightarrow>
          let timeA = parseInt sa in
          (case sliceMethod (startTime b) of
             Inl e \<Rightarrow> Inl e
           | Inr sb \<Rightarrow>
               let timeB = parseInt sb in
               Inr (if numLess timeA timeB then - 1
                    else if numGreater timeA timeB then 1
                    else 0)))"

subsection \<open>The store of arrays\<close>

text \<open>
  An array is an object on the heap and a variable holds a reference to it. The heap is
  the list of the arrays allocated so far, a reference is a position in it. \<open>filter\<close>
  allocates its result, \<open>sort\<close> sorts the array it is called on in place and returns
  the same reference. When the callback of \<open>filter\<close> raises, the array under construction
  is unreachable and is left out of the heap. No step of \<open>refreshEventList\<close> writes a
  field of an event, so an array holds the events themselves.
\<close>

type_synonym ref = nat
type_synonym heap = "CalendarEvent list list"

record CalendarDay =
  date_d :: jsval
  eventList :: "ref option"

definition array_filter ::
  "(CalendarEvent \<Rightarrow> error + bool) \<Rightarrow> ref \<Rightarrow> heap \<Rightarrow> (error + ref) \<times> heap" where
  "array_filter p a h =
     (case filter_js p (h ! a) of
        Inl e \<Rightarrow> (Inl e, h)
      | Inr ys \<Rightarrow> (Inr (length h), h @ [ys]))"

definition array_sort ::
  "(CalendarEvent \<Rightarrow> CalendarEvent \<Rightarrow> error + int) \<Rightarrow> ref \<Rightarrow> heap \<Rightarrow> (error + ref) \<times> heap" where
  "array_sort cmp a h =
     (case sort_js cmp (h ! a) of
        Inl e \<Rightarrow> (Inl e, h)
      | Inr ys \<Rightarrow> (Inr a, h[a := ys]))"

definition dateMatches :: "CalendarDay \<Rightarrow> CalendarEvent \<Rightarrow> error + bool" where
  \<comment> \<open>the arrow function passed to \<open>filter\<close>:
      \<open>obj.date.toString().trim() === this.date.toString().trim()\<close>, the left side first\<close>
  "dateMatches this obj =
     (case toStringMethod (date obj) of
        Inl e \<Rightarrow> Inl e
      | Inr s \<Rightarrow>
          (case toStringMethod (date_d this) of
             Inl e \<Rightarrow> Inl e
           | Inr t \<Rightarrow> Inr (trim s = trim t)))"

definition refreshEventList ::
  "CalendarDay \<Rightarrow> ref \<Rightarrow> heap \<Rightarrow> (error + CalendarDay) \<times> heap" where
  \<comment> \<open>\<open>this\<close>, the global \<open>globalEventList\<close> and the heap; the result is \<open>this\<close> after the
      call, or the error raised, and the heap after the call. A global that names no array
      of the heap is an undeclared one.\<close>
  "refreshEventList this globalEventList h =
     (if globalEventList < length h then
        (case array_filter (dateMatches this) globalEventList h of
           (Inl e, h1) \<Rightarrow> (Inl e, h1)
         | (Inr matchingEvents, h1) \<Rightarrow>
             (case array_sort compareStartTime matchingEvents h1 of
                (Inl e, h2) \<Rightarrow> (Inl e, h2)
              | (Inr sortedEvents, h2) \<Rightarrow> (Inr (this\<lparr>eventList := Some sortedEvents\<rparr>), h2)))
      else (Inl ReferenceError, h))"

subsection \<open>What the properties of the day model speak of\<close>

definition hasDate :: "jsval \<Rightarrow> bool" where
  \<comment> \<open>a date that is neither \<open>undefined\<close> nor \<open>null\<close>\<close>
  "hasDate v = (v \<noteq> JUndefined \<and> v \<noteq> JNull)"

definition sameDate :: "CalendarDay \<Rightarrow> CalendarEvent \<Rightarrow> bool" where
  \<comment> \<open>the date key of the event equals the date key of the day, both trimmed\<close>
  "sameDate this e = (trim (toString (date e)) = trim (toString (date_d this)))"

definition isString :: "jsval \<Rightarrow> bool" where
  "isString v = (case v of JStr s \<Rightarrow> True | _ \<Rightarrow> False)"

definition hourOf :: "CalendarEvent \<Rightarrow> number" where
  \<comment> \<open>the integer parsed from the first two characters of the start time; NaN when
      they do not parse or the start time is not a string\<close>
  "hourOf e = (case startTime e of JStr s \<Rightarrow> parseInt (slice02 s) | _ \<Rightarrow> None)"

section \<open>Dates\<close>

text \<open>
  A \<open>Date\<close> object holds a time value in milliseconds or NaN (an invalid date). The
  methods the code calls read it in local time; the time values here are local ones (the
  offset to UTC is taken as constant). The functions on time values are the abstract
  operations of ECMAScript (section "Date Objects"), with their names.
\<close>

datatype Date = InvalidDate | Date int

definition msPerDay :: int where
  "msPerDay = 86400000"

definition maxTime :: int where
  "maxTime = 8640000000000000"

definition TimeClip :: "int \<Rightarrow> Date" where
  "TimeClip t = (if abs t > maxTime then InvalidDate else Date t)"

definition Day :: "int \<Rightarrow> int" where
  "Day t = t div msPerDay"

definition TimeWithinDay :: "int \<Rightarrow> int" where
  "TimeWithinDay t = t mod msPerDay"

definition DaysInYear :: "int \<Rightarrow> int" where
  "DaysInYear y =
     (if y mod 4 \<noteq> 0 then 365 else if y mod 100 \<noteq> 0 then 366 else if y mod 400 \<noteq> 0 then 365 else 366)"

definition DayFromYear :: "int \<Rightarrow> int" where
  "DayFromYear y = 365 * (y - 1970) + (y - 1969) div 4 - (y - 1901) div 100 + (y - 1601) div 400"

text \<open>A year has 365 or 366 days: what makes the search for the year of a day stop.\<close>

lemma div_succ:
  fixes a k :: int
  assumes "0 < k"
  shows "(a + 1) div k = a div k + (if (a + 1) mod k = 0 then 1 else 0)"
proof -
  define q r where "q = a div k" and "r = a mod k"
  have a: "a = k * q + r" and r: "0 \<le> r" "r < k"
    using assms by (simp_all add: q_def r_def)
  show ?thesis
  proof (cases "r + 1 = k")
    case True
    have e: "a + 1 = k * (q + 1) + 0" using a True by (simp add: algebra_simps)
    have "(a + 1) div k = q + 1" by (rule int_div_pos_eq[OF e]) (use assms in auto)
    moreover have "(a + 1) mod k = 0" by (rule int_mod_pos_eq[OF e]) (use assms in auto)
    ultimately show ?thesis by (simp add: q_def)
  next
    case False
    have e: "a + 1 = k * q + (r + 1)" using a by simp
    have b: "0 \<le> r + 1" "r + 1 < k" using r False by auto
    have "(a + 1) div k = q" by (rule int_div_pos_eq[OF e b])
    moreover have "(a + 1) mod k = r + 1" by (rule int_mod_pos_eq[OF e b])
    ultimately show ?thesis using r by (simp add: q_def)
  qed
qed

lemma mod_shift: "k dvd c \<Longrightarrow> ((y - c) mod k = 0) = (y mod k = 0)" for y c k :: int
  by (metis mod_eq_0_iff_dvd mod_eq_dvd_iff)

lemma DayFromYear_Suc: "DayFromYear (y + 1) = DayFromYear y + DaysInYear y"
proof -
  have a4: "(y + 1 - 1969) div 4 = (y - 1969) div 4 + (if y mod 4 = 0 then 1 else 0)"
    using div_succ[of 4 "y - 1969"] mod_shift[of 4 1968 y] by (simp add: algebra_simps)
  have a100: "(y + 1 - 1901) div 100 = (y - 1901) div 100 + (if y mod 100 = 0 then 1 else 0)"
    using div_succ[of 100 "y - 1901"] mod_shift[of 100 1900 y] by (simp add: algebra_simps)
  have a400: "(y + 1 - 1601) div 400 = (y - 1601) div 400 + (if y mod 400 = 0 then 1 else 0)"
    using div_succ[of 400 "y - 1601"] mod_shift[of 400 1600 y] by (simp add: algebra_simps)
  have m1: "y mod 400 = 0 \<Longrightarrow> y mod 100 = 0"
    using dvd_trans[of 100 400 y] by (simp add: mod_eq_0_iff_dvd)
  have m2: "y mod 100 = 0 \<Longrightarrow> y mod 4 = 0"
    using dvd_trans[of 4 100 y] by (simp add: mod_eq_0_iff_dvd)
  show ?thesis
    unfolding DayFromYear_def DaysInYear_def a4 a100 a400 using m1 m2 by auto
qed

lemma DaysInYear_cases: "DaysInYear y = 365 \<or> DaysInYear y = 366"
  by (simp add: DaysInYear_def)

function yearSearch :: "int \<Rightarrow> int \<Rightarrow> int" where
  "yearSearch d y = (if DayFromYear (y + 1) \<le> d then yearSearch d (y + 1) else y)"
  by pat_completeness auto
termination
proof (relation "measure (\<lambda>(d, y). nat (d - DayFromYear (y + 1) + 1))")
  show "wf (measure (\<lambda>(d, y). nat (d - DayFromYear (y + 1) + 1)))" by simp
next
  fix d y :: int
  assume "DayFromYear (y + 1) \<le> d"
  moreover have "DayFromYear (y + 1 + 1) > DayFromYear (y + 1)"
    using DayFromYear_Suc [of "y + 1"] DaysInYear_cases [of "y + 1"] by linarith
  ultimately show "((d, y + 1), (d, y)) \<in> measure (\<lambda>(d, y). nat (d - DayFromYear (y + 1) + 1))"
    by simp
qed

declare yearSearch.simps [simp del]

definition YearFromTime :: "int \<Rightarrow> int" where
  \<comment> \<open>the largest \<open>y\<close> with \<open>DayFromYear y \<le> Day t\<close>, searched upwards from a year that is
      not after it\<close>
  "YearFromTime t =
     yearSearch (Day t) (1970 + (if 0 \<le> Day t then Day t div 366 else Day t div 365))"

definition leapDay :: "int \<Rightarrow> int" where
  \<comment> \<open>1 for a leap year, 0 for another year\<close>
  "leapDay y = (if DaysInYear y = 366 then 1 else 0)"

definition InLeapYear :: "int \<Rightarrow> int" where
  "InLeapYear t = leapDay (YearFromTime t)"

definition DayWithinYear :: "int \<Rightarrow> int" where
  "DayWithinYear t = Day t - DayFromYear (YearFromTime t)"

definition monthStart :: "int \<Rightarrow> int \<Rightarrow> int" where
  \<comment> \<open>the day within the year on which month \<open>m\<close> (0 to 11) starts; \<open>leap\<close> is 0 or 1\<close>
  "monthStart m leap =
     (if m = 0 then 0 else if m = 1 then 31 else if m = 2 then 59 + leap
      else if m = 3 then 90 + leap else if m = 4 then 120 + leap else if m = 5 then 151 + leap
      else if m = 6 then 181 + leap else if m = 7 then 212 + leap else if m = 8 then 243 + leap
      else if m = 9 then 273 + leap else if m = 10 then 304 + leap else 334 + leap)"

definition DaysInMonth :: "int \<Rightarrow> int \<Rightarrow> int" where
  \<comment> \<open>the number of days of month \<open>m\<close> (0 to 11): the distance between two starts\<close>
  "DaysInMonth m leap =
     (if m = 1 then 28 + leap else if m = 3 \<or> m = 5 \<or> m = 8 \<or> m = 10 then 30 else 31)"

definition MonthFromTime :: "int \<Rightarrow> int" where
  "MonthFromTime t =
     (let d = DayWithinYear t; leap = InLeapYear t in
      if d < 31 then 0 else if d < 59 + leap then 1 else if d < 90 + leap then 2
      else if d < 120 + leap then 3 else if d < 151 + leap then 4 else if d < 181 + leap then 5
      else if d < 212 + leap then 6 else if d < 243 + leap then 7 else if d < 273 + leap then 8
      else if d < 304 + leap then 9 else if d < 334 + leap then 10 else 11)"

definition DateFromTime :: "int \<Rightarrow> int" where
  "DateFromTime t = DayWithinYear t - monthStart (MonthFromTime t) (InLeapYear t) + 1"

definition WeekDay :: "int \<Rightarrow> int" where
  "WeekDay t = (Day t + 4) mod 7"

definition MakeDay :: "int \<Rightarrow> int \<Rightarrow> int \<Rightarrow> int" where
  "MakeDay year month dt =
     (let ym = year + month div 12; mn = month mod 12 in
      DayFromYear ym + monthStart mn (leapDay ym) + dt - 1)"

definition MakeDate :: "int \<Rightarrow> int \<Rightarrow> int" where
  "MakeDate day time = day * msPerDay + time"

subsection \<open>The Date methods the code calls\<close>

definition getFullYear :: "Date \<Rightarrow> number" where
  "getFullYear d = (case d of InvalidDate \<Rightarrow> None | Date t \<Rightarrow> Some (YearFromTime t))"

definition getMonth :: "Date \<Rightarrow> number" where
  "getMonth d = (case d of InvalidDate \<Rightarrow> None | Date t \<Rightarrow> Some (MonthFromTime t))"

definition getDate :: "Date \<Rightarrow> number" where
  "getDate d = (case d of InvalidDate \<Rightarrow> None | Date t \<Rightarrow> Some (DateFromTime t))"

definition numPlus :: "number \<Rightarrow> int \<Rightarrow> number" where
  \<comment> \<open>\<open>n + k\<close>, NaN when \<open>n\<close> is\<close>
  "numPlus n k = (case n of None \<Rightarrow> None | Some i \<Rightarrow> Some (i + k))"

definition MakeFullYear :: "int \<Rightarrow> int" where
  \<comment> \<open>a year from 0 to 99 given to the constructor stands for 1900 + year\<close>
  "MakeFullYear y = (if 0 \<le> y \<and> y \<le> 99 then 1900 + y else y)"

definition newDate3 :: "number \<Rightarrow> number \<Rightarrow> number \<Rightarrow> Date" where
  \<comment> \<open>\<open>new Date(year, month, day)\<close>, at 0:00\<close>
  "newDate3 year month day =
     (case year of None \<Rightarrow> InvalidDate | Some y \<Rightarrow>
      (case month of None \<Rightarrow> InvalidDate | Some m \<Rightarrow>
       (case day of None \<Rightarrow> InvalidDate | Some dt \<Rightarrow>
          TimeClip (MakeDate (MakeDay (MakeFullYear y) m dt) 0))))"

definition setMonth :: "Date \<Rightarrow> number \<Rightarrow> Date" where
  \<comment> \<open>\<open>date.setMonth(month)\<close>: the date after the call\<close>
  "setMonth d month =
     (case d of InvalidDate \<Rightarrow> InvalidDate | Date t \<Rightarrow>
      (case month of None \<Rightarrow> InvalidDate | Some m \<Rightarrow>
         TimeClip (MakeDate (MakeDay (YearFromTime t) m (DateFromTime t)) (TimeWithinDay t))))"

definition toStringFirstWord :: "Date \<Rightarrow> string" where
  \<comment> \<open>\<open>date.toString().split(" ")[0]\<close>: the string starts with the name of the week day
      and a space, and is "Invalid Date" for an invalid date\<close>
  "toStringFirstWord d =
     (case d of InvalidDate \<Rightarrow> ''Invalid''
      | Date t \<Rightarrow> [''Sun'', ''Mon'', ''Tue'', ''Wed'', ''Thu'', ''Fri'', ''Sat''] ! nat (WeekDay t))"

section \<open>Date utilities of the calendar manager\<close>

definition getDaysInMonth :: "Date \<Rightarrow> number" where
  "getDaysInMonth aDate =
     getDate (newDate3 (getFullYear aDate) (numPlus (getMonth aDate) 1) (Some 0))"

text \<open>
  The object \<open>getFirstWeekDayInMonth\<close> returns has the properties \<open>weekday\<close> and
  \<open>index\<close> in seven branches and the properties \<open>weekDay\<close> and \<open>index\<close> in the default
  branch. Reading a property an object does not have gives \<open>undefined\<close>.
\<close>

datatype FirstWeekDay =
    Weekday_index string int
  | WeekDay_index string int

definition index :: "FirstWeekDay \<Rightarrow> int" where
  "index obj = (case obj of Weekday_index w i \<Rightarrow> i | WeekDay_index w i \<Rightarrow> i)"

definition weekday :: "FirstWeekDay \<Rightarrow> jsval" where
  "weekday obj = (case obj of Weekday_index w i \<Rightarrow> JStr w | WeekDay_index w i \<Rightarrow> JUndefined)"

definition weekDay :: "FirstWeekDay \<Rightarrow> jsval" where
  "weekDay obj = (case obj of Weekday_index w i \<Rightarrow> JUndefined | WeekDay_index w i \<Rightarrow> JStr w)"

definition getFirstWeekDayInMonth :: "Date \<Rightarrow> FirstWeekDay" where
  "getFirstWeekDayInMonth selectedDate =
     (let month = getMonth selectedDate;
          year = getFullYear selectedDate;
          firstDayDate = newDate3 year month (Some 1);
          firstDayDateSlice = toStringFirstWord firstDayDate
      in if firstDayDateSlice = ''Mon'' then Weekday_index ''Monday'' 0
         else if firstDayDateSlice = ''Tue'' then Weekday_index ''Tuesday'' 1
         else if firstDayDateSlice = ''Wed'' then Weekday_index ''Wednesday'' 2
         else if firstDayDateSlice = ''Thu'' then Weekday_index ''Thursday'' 3
         else if firstDayDateSlice = ''Fri'' then Weekday_index ''Friday'' 4
         else if firstDayDateSlice = ''Sat'' then Weekday_index ''Saturday'' 5
         else if firstDayDateSlice = ''Sun'' then Weekday_index ''Sunday'' 6
         else WeekDay_index ''UNDEFINED'' 0)"

definition numberToString :: "number \<Rightarrow> string" where
  "numberToString n = (case n of None \<Rightarrow> ''NaN'' | Some i \<Rightarrow> numToString i)"

definition getDateString :: "number \<Rightarrow> number \<Rightarrow> number \<Rightarrow> string" where
  "getDateString day month year =
     (let day1 = (if length (numberToString day) = 1 then ''0'' @ numberToString day
                  else numberToString day);
          month1 = (if length (numberToString month) = 1 then ''0'' @ numberToString month
                    else numberToString month)
      in day1 @ ''-'' @ month1 @ ''-'' @ numberToString year)"

section \<open>The grid builder: createCalendarGrid\<close>

text \<open>
  A day cell is the \<open>div\<close> that \<open>createDayDiv\<close> builds: its class list, the text of its
  \<open>h4\<close> child and its \<open>data-date\<close> attribute. The container is the list of its children.
\<close>

record DayDiv =
  classList :: "string list"
  day_date_number :: string
  dataset_date :: "string option"

definition classListAdd :: "string \<Rightarrow> string list \<Rightarrow> string list" where
  \<comment> \<open>\<open>classList.add(c)\<close>\<close>
  "classListAdd c cs = (if c \<in> set cs then cs else cs @ [c])"

definition createDayDiv :: "string \<Rightarrow> number \<Rightarrow> DayDiv" where
  "createDayDiv type day =
     \<lparr> classList = classListAdd type [''monthView_day''],
       day_date_number = numberToString day,
       dataset_date = None \<rparr>"

fun previousLoop :: "int list \<Rightarrow> Date \<Rightarrow> nat list \<Rightarrow> DayDiv list \<Rightarrow> error + DayDiv list" where
  \<comment> \<open>the first \<open>for\<close> loop, over the values of \<open>i\<close> still to run; \<open>remainder[i]\<close>
      beyond the end of the array is \<open>undefined\<close>, and \<open>getDateString\<close> raises on it\<close>
  "previousLoop remainder previousMonth [] container = Inr container"
| "previousLoop remainder previousMonth (i # rest) container =
     (if i < length remainder then
        let currentDateString =
              getDateString (Some (remainder ! i)) (numPlus (getMonth previousMonth) 1)
                (getFullYear previousMonth);
            newDiv = createDayDiv ''previous'' (Some (remainder ! i));
            newDiv1 = newDiv\<lparr>dataset_date := Some currentDateString\<rparr>
        in previousLoop remainder previousMonth rest (container @ [newDiv1])
      else Inl TypeError)"

fun monthLoop :: "string \<Rightarrow> Date \<Rightarrow> nat list \<Rightarrow> DayDiv list \<Rightarrow> DayDiv list" where
  \<comment> \<open>the second and the third \<open>for\<close> loop: they differ in the class and in the date
      whose month and year they read\<close>
  "monthLoop type aDate [] container = container"
| "monthLoop type aDate (i # rest) container =
     (let currentDateString =
            getDateString (Some (int i + 1)) (numPlus (getMonth aDate) 1) (getFullYear aDate);
          newDiv = createDayDiv type (Some (int i + 1));
          newDiv1 = newDiv\<lparr>dataset_date := Some currentDateString\<rparr>
      in monthLoop type aDate rest (container @ [newDiv1]))"

definition addToday :: "number \<Rightarrow> DayDiv list \<Rightarrow> error + DayDiv list" where
  \<comment> \<open>\<open>container.children[n].classList.add("today")\<close>: \<open>children[n]\<close> is \<open>undefined\<close>
      unless \<open>n\<close> is the position of a child\<close>
  "addToday n container =
     (case n of None \<Rightarrow> Inl TypeError
      | Some k \<Rightarrow>
          if 0 \<le> k \<and> k < int (length container)
          then Inr (container[nat k :=
                 (container ! nat k)\<lparr>classList := classListAdd ''today'' (classList (container ! nat k))\<rparr>])
          else Inl TypeError)"

text \<open>
  \<open>createCalendarGrid\<close> reads the clock (\<open>new Date()\<close>) and two globals that no file of the
  repository under study declares, \<open>daysInCurrentMonth\<close> and \<open>nextMonth\<close>. The three are
  parameters here, before the three parameters of the source: \<open>now\<close> is the date the
  clock gives, \<open>daysInCurrentMonth\<close> a number and \<open>nextMonth\<close> a date.
\<close>

definition createCalendarGrid ::
  "Date \<Rightarrow> int \<Rightarrow> Date \<Rightarrow> Date \<Rightarrow> DayDiv list \<Rightarrow> int \<Rightarrow> error + DayDiv list" where
  "createCalendarGrid now daysInCurrentMonth nextMonth selectedDate container gridItemAmount =
     (let previousMonth = setMonth now (numPlus (getMonth selectedDate) (- 1));
          firstDay = getFirstWeekDayInMonth selectedDate;
          daysInPreviousMonth = getDaysInMonth previousMonth;
          remainder0 = (case daysInPreviousMonth of None \<Rightarrow> [] | Some n \<Rightarrow> [1..n]);
          remainder = drop (nat (max (int (length remainder0) - index firstDay) 0)) remainder0
      in case previousLoop remainder previousMonth [0..<nat (index firstDay)] container of
           Inl e \<Rightarrow> Inl e
         | Inr container1 \<Rightarrow>
             let container2 =
                   monthLoop ''current'' selectedDate [0..<nat daysInCurrentMonth] container1;
                 daysRemaining = gridItemAmount - int (length container2);
                 container3 = monthLoop ''next'' nextMonth [0..<nat daysRemaining] container2
             in addToday (numPlus (numPlus (getDate selectedDate) (index firstDay)) (- 1))
                  container3)"

definition initCalendar :: "Date \<Rightarrow> int \<Rightarrow> Date \<Rightarrow> Date \<Rightarrow> DayDiv list \<Rightarrow> error + DayDiv list" where
  \<comment> \<open>the start of \<open>initCalendar\<close>, up to the call of \<open>createCalendarGrid\<close>: the choice
      of the number of cells. What follows it in the source renders the day list.\<close>
  "initCalendar now daysInCurrentMonth nextMonth selectedDate container =
     (let firstDayOfSelectedMonth = getFirstWeekDayInMonth selectedDate;
          maxGridItems = (if index firstDayOfSelectedMonth \<ge> 5 then 42 else 35)
      in createCalendarGrid now daysInCurrentMonth nextMonth selectedDate container maxGridItems)"

subsection \<open>The cells the loops append\<close>

definition monthCell :: "string \<Rightarrow> Date \<Rightarrow> nat \<Rightarrow> DayDiv" where
  \<comment> \<open>the cell that step \<open>i\<close> of the second or third loop appends\<close>
  "monthCell type aDate i =
     (createDayDiv type (Some (int i + 1)))
       \<lparr>dataset_date :=
          Some (getDateString (Some (int i + 1)) (numPlus (getMonth aDate) 1) (getFullYear aDate))\<rparr>"

definition previousCell :: "int list \<Rightarrow> Date \<Rightarrow> nat \<Rightarrow> DayDiv" where
  \<comment> \<open>the cell that step \<open>i\<close> of the first loop appends\<close>
  "previousCell remainder previousMonth i =
     (createDayDiv ''previous'' (Some (remainder ! i)))
       \<lparr>dataset_date :=
          Some (getDateString (Some (remainder ! i)) (numPlus (getMonth previousMonth) 1)
                  (getFullYear previousMonth))\<rparr>"

definition untagged :: "DayDiv list \<Rightarrow> bool" where
  \<comment> \<open>no cell of the list has the class \<open>today\<close>\<close>
  "untagged cells = list_all (\<lambda>c. ''today'' \<notin> set (classList c)) cells"

section \<open>Example data\<close>

definition exampleEvent :: "int \<Rightarrow> string \<Rightarrow> jsval \<Rightarrow> jsval \<Rightarrow> jsval \<Rightarrow> CalendarEvent" where
  \<comment> \<open>an event of 1 January 2024 with the given id, start time, type, difficulty and
      completion\<close>
  "exampleEvent i start ty diff fin =
     \<lparr> id_f = JNum i, name = JStr ''Example'', description = JStr ''An example'',
       date = JStr ''01-01-2024'', startTime = JStr start, endTime = JStr ''23:59'',
       type_f = ty, difficulty = diff, finished = fin \<rparr>"

section \<open>Properties of the event model\<close>

lemma exampleEvent_sel:
  "id_f (exampleEvent i st ty d f) = JNum i"
  "date (exampleEvent i st ty d f) = JStr ''01-01-2024''"
  "startTime (exampleEvent i st ty d f) = JStr st"
  "type_f (exampleEvent i st ty d f) = ty"
  "difficulty (exampleEvent i st ty d f) = d"
  "finished (exampleEvent i st ty d f) = f"
  by (simp_all add: exampleEvent_def)

text \<open>What \<open>updateEventInfo\<close> does to every event, for every payload.\<close>

theorem updateEventInfo_effect:
  "fst (updateEventInfo this eventData console) = JUndefined
   \<and> fst (snd (updateEventInfo this eventData console))
     = this\<lparr>name := name eventData, description := description eventData,
             date := date eventData, startTime := startTime eventData,
             endTime := endTime eventData, type_f := type_f eventData,
             finished := finished eventData\<rparr>"
  by (simp add: updateEventInfo_def Let_def)

text \<open>
  Claim C2: the update operation replaces every field except \<open>id\<close> (name, description,
  date, startTime, endTime, type, difficulty, finished) with the payload's field, leaves
  \<open>id\<close> unchanged and returns no value.

  \<open>updateEventInfo\<close> has no assignment to \<open>this.difficulty\<close>. On a task of difficulty 1
  and a payload of difficulty 3 the task keeps difficulty 1, while its name, start time
  and completion are the payload's.
\<close>

theorem updateEventInfo_keeps_difficulty:
  "updateEventInfo
     (exampleEvent 7 ''09:00'' (JStr ''task'') (JNum 1) (JBool False))
     ((exampleEvent 7 ''10:00'' (JStr ''task'') (JNum 3) (JBool True))\<lparr>name := JStr ''Renamed''\<rparr>)
     []
   = (JUndefined,
      (exampleEvent 7 ''10:00'' (JStr ''task'') (JNum 1) (JBool True))\<lparr>name := JStr ''Renamed''\<rparr>,
      [''Updated CalendarEvent: 7''])"
  by (simp add: updateEventInfo_def exampleEvent_def toString_def numToString_def
      natToString.simps digitChar_def)

section \<open>Properties of the day summary\<close>

lemma switchDifficulty_eq: "switchDifficulty d t = (difficultyXP d, t + difficultyXP d)"
  by (simp add: switchDifficulty_def difficultyXP_def)

lemma difficultyXP_nonneg: "0 \<le> difficultyXP d"
  by (simp add: difficultyXP_def)

text \<open>Each of the five results is the initial value plus what every event adds.\<close>

lemma summaryLoop_totalXP:
  "totalXP (summaryLoop evs s) =
     totalXP s + (\<Sum>e\<leftarrow>evs. if reachesSwitch e then difficultyXP (difficulty e) else 0)"
  by (induction evs arbitrary: s) (simp_all add: switchDifficulty_eq reachesSwitch_def Let_def)

lemma summaryLoop_earnedXP:
  "earnedXP (summaryLoop evs s) =
     earnedXP s + (\<Sum>e\<leftarrow>evs. if reachesSwitch e \<and> finished e = JBool True
                                then difficultyXP (difficulty e) else 0)"
  by (induction evs arbitrary: s) (simp_all add: switchDifficulty_eq reachesSwitch_def Let_def)

lemma summaryLoop_finishedTasks:
  "finishedTasks (summaryLoop evs s) =
     finishedTasks s + int (length (filter (\<lambda>e. reachesSwitch e \<and> finished e = JBool True) evs))"
  by (induction evs arbitrary: s) (simp_all add: switchDifficulty_eq reachesSwitch_def Let_def)

lemma summaryLoop_totalTasks:
  "totalTasks (summaryLoop evs s) =
     totalTasks s + int (length (filter (\<lambda>e. type_f e = JStr ''task'') evs))"
  by (induction evs arbitrary: s) (simp_all add: switchDifficulty_eq Let_def)

lemma summaryLoop_totalEvents:
  "totalEvents (summaryLoop evs s) =
     totalEvents s + int (length (filter (\<lambda>e. type_f e = JStr ''event'') evs))"
  by (induction evs arbitrary: s) (simp_all add: switchDifficulty_eq Let_def)

lemma known_type_reaches:
  assumes "type_f e = JStr ''event'' \<or> type_f e = JStr ''reminder'' \<or> type_f e = JStr ''task''"
  shows "reachesSwitch e = (type_f e = JStr ''task'')"
  using assms by (auto simp: reachesSwitch_def)

lemma sum_list_insert:
  "(\<Sum>e\<leftarrow>xs @ x # ys. f e) = (\<Sum>e\<leftarrow>xs @ ys. f e) + (f x :: int)"
  by simp

lemma calculateSummary_fields:
  "earnedXP (calculateSummary v) = (\<Sum>e\<leftarrow>v. if reachesSwitch e \<and> finished e = JBool True
                                then difficultyXP (difficulty e) else 0)"
  "totalXP (calculateSummary v) = (\<Sum>e\<leftarrow>v. if reachesSwitch e then difficultyXP (difficulty e) else 0)"
  "finishedTasks (calculateSummary v)
     = int (length (filter (\<lambda>e. reachesSwitch e \<and> finished e = JBool True) v))"
  "totalTasks (calculateSummary v) = int (length (filter (\<lambda>e. type_f e = JStr ''task'') v))"
  "totalEvents (calculateSummary v) = int (length (filter (\<lambda>e. type_f e = JStr ''event'') v))"
  by (simp_all add: calculateSummary_def summaryLoop_earnedXP summaryLoop_totalXP
      summaryLoop_finishedTasks summaryLoop_totalTasks summaryLoop_totalEvents)

text \<open>
  Claim C3: \<open>calculateSummary\<close> folds the view once with fixed rules. An event of type
  \<open>event\<close> adds one to \<open>totalEvents\<close> and no XP; one of type \<open>reminder\<close> adds nothing to
  any of the five results; one of type \<open>task\<close> adds one to \<open>totalTasks\<close> and the XP of its
  difficulty (\<open>difficultyXP\<close>: 150, 400, 750 for 1, 2, 3, otherwise 0) to \<open>totalXP\<close>, and
  when finished also that XP to \<open>earnedXP\<close> and one to \<open>finishedTasks\<close>. The summary of
  the empty view is zero, and each rule holds wherever the event stands in a view. On one
  finished task of difficulty 2 and one unfinished task of difficulty 3 the summary is
  400, 1150, 1, 2 and 0.
\<close>

theorem calculateSummary_event_rules:
  "calculateSummary []
     = \<lparr> earnedXP = 0, totalXP = 0, finishedTasks = 0, totalTasks = 0, totalEvents = 0 \<rparr>
   \<and> (type_f e = JStr ''event'' \<longrightarrow>
        calculateSummary (xs @ e # ys)
        = (calculateSummary (xs @ ys))
            \<lparr>totalEvents := totalEvents (calculateSummary (xs @ ys)) + 1\<rparr>)
   \<and> (type_f e = JStr ''reminder'' \<longrightarrow>
        calculateSummary (xs @ e # ys) = calculateSummary (xs @ ys))
   \<and> (type_f e = JStr ''task'' \<and> finished e = JBool True \<longrightarrow>
        calculateSummary (xs @ e # ys)
        = (calculateSummary (xs @ ys))
            \<lparr>earnedXP := earnedXP (calculateSummary (xs @ ys)) + difficultyXP (difficulty e),
             totalXP := totalXP (calculateSummary (xs @ ys)) + difficultyXP (difficulty e),
             finishedTasks := finishedTasks (calculateSummary (xs @ ys)) + 1,
             totalTasks := totalTasks (calculateSummary (xs @ ys)) + 1\<rparr>)
   \<and> (type_f e = JStr ''task'' \<and> finished e \<noteq> JBool True \<longrightarrow>
        calculateSummary (xs @ e # ys)
        = (calculateSummary (xs @ ys))
            \<lparr>totalXP := totalXP (calculateSummary (xs @ ys)) + difficultyXP (difficulty e),
             totalTasks := totalTasks (calculateSummary (xs @ ys)) + 1\<rparr>)"
proof (intro conjI impI)
  show "calculateSummary []
     = \<lparr> earnedXP = 0, totalXP = 0, finishedTasks = 0, totalTasks = 0, totalEvents = 0 \<rparr>"
    by (simp add: calculateSummary_def)
next
  assume "type_f e = JStr ''event''"
  then show "calculateSummary (xs @ e # ys)
        = (calculateSummary (xs @ ys))\<lparr>totalEvents := totalEvents (calculateSummary (xs @ ys)) + 1\<rparr>"
    by (intro Summary.equality) (simp_all add: calculateSummary_fields reachesSwitch_def)
next
  assume "type_f e = JStr ''reminder''"
  then show "calculateSummary (xs @ e # ys) = calculateSummary (xs @ ys)"
    by (intro Summary.equality) (simp_all add: calculateSummary_fields reachesSwitch_def)
next
  assume "type_f e = JStr ''task'' \<and> finished e = JBool True"
  then show "calculateSummary (xs @ e # ys)
        = (calculateSummary (xs @ ys))
            \<lparr>earnedXP := earnedXP (calculateSummary (xs @ ys)) + difficultyXP (difficulty e),
             totalXP := totalXP (calculateSummary (xs @ ys)) + difficultyXP (difficulty e),
             finishedTasks := finishedTasks (calculateSummary (xs @ ys)) + 1,
             totalTasks := totalTasks (calculateSummary (xs @ ys)) + 1\<rparr>"
    by (intro Summary.equality) (simp_all add: calculateSummary_fields reachesSwitch_def)
next
  assume "type_f e = JStr ''task'' \<and> finished e \<noteq> JBool True"
  then show "calculateSummary (xs @ e # ys)
        = (calculateSummary (xs @ ys))
            \<lparr>totalXP := totalXP (calculateSummary (xs @ ys)) + difficultyXP (difficulty e),
             totalTasks := totalTasks (calculateSummary (xs @ ys)) + 1\<rparr>"
    by (intro Summary.equality) (simp_all add: calculateSummary_fields reachesSwitch_def)
qed

theorem calculateSummary_event_rules_witness:
  "calculateSummary
     [exampleEvent 1 ''09:00'' (JStr ''task'') (JNum 2) (JBool True),
      exampleEvent 2 ''14:30'' (JStr ''task'') (JNum 3) (JBool False)]
   = \<lparr> earnedXP = 400, totalXP = 1150, finishedTasks = 1, totalTasks = 2, totalEvents = 0 \<rparr>"
  using calculateSummary_event_rules
      [of "exampleEvent 1 ''09:00'' (JStr ''task'') (JNum 2) (JBool True)" "[]"
          "[exampleEvent 2 ''14:30'' (JStr ''task'') (JNum 3) (JBool False)]"]
    calculateSummary_event_rules
      [of "exampleEvent 2 ''14:30'' (JStr ''task'') (JNum 3) (JBool False)" "[]" "[]"]
  by (simp add: exampleEvent_sel difficultyXP_def)

text \<open>On a view of events of these three types the five results are sums and counts.\<close>

lemma calculateSummary_closed_form:
  assumes "\<forall>e\<in>set view. type_f e = JStr ''event'' \<or> type_f e = JStr ''reminder''
                          \<or> type_f e = JStr ''task''"
  shows "calculateSummary view =
     \<lparr> earnedXP = (\<Sum>e\<leftarrow>filter (\<lambda>e. type_f e = JStr ''task'' \<and> finished e = JBool True) view.
                      difficultyXP (difficulty e)),
       totalXP = (\<Sum>e\<leftarrow>filter (\<lambda>e. type_f e = JStr ''task'') view. difficultyXP (difficulty e)),
       finishedTasks = int (length (filter (\<lambda>e. type_f e = JStr ''task'' \<and> finished e = JBool True) view)),
       totalTasks = int (length (filter (\<lambda>e. type_f e = JStr ''task'') view)),
       totalEvents = int (length (filter (\<lambda>e. type_f e = JStr ''event'') view)) \<rparr>"
proof -
  have r: "\<And>e. e \<in> set view \<Longrightarrow> reachesSwitch e = (type_f e = JStr ''task'')"
    using assms known_type_reaches by blast
  have e1: "earnedXP (calculateSummary view) =
      (\<Sum>e\<leftarrow>filter (\<lambda>e. type_f e = JStr ''task'' \<and> finished e = JBool True) view. difficultyXP (difficulty e))"
    unfolding calculateSummary_def summaryLoop_earnedXP sum_list_map_filter'
    using r by (auto intro!: arg_cong[where f = sum_list] map_cong)
  have e2: "totalXP (calculateSummary view) =
      (\<Sum>e\<leftarrow>filter (\<lambda>e. type_f e = JStr ''task'') view. difficultyXP (difficulty e))"
    unfolding calculateSummary_def summaryLoop_totalXP sum_list_map_filter'
    using r by (auto intro!: arg_cong[where f = sum_list] map_cong)
  have e3: "finishedTasks (calculateSummary view) =
      int (length (filter (\<lambda>e. type_f e = JStr ''task'' \<and> finished e = JBool True) view))"
    unfolding calculateSummary_def summaryLoop_finishedTasks
    using r by (auto intro!: arg_cong[where f = length] filter_cong)
  have e4: "totalTasks (calculateSummary view) = int (length (filter (\<lambda>e. type_f e = JStr ''task'') view))"
    unfolding calculateSummary_def summaryLoop_totalTasks by simp
  have e5: "totalEvents (calculateSummary view) = int (length (filter (\<lambda>e. type_f e = JStr ''event'') view))"
    unfolding calculateSummary_def summaryLoop_totalEvents by simp
  show ?thesis
    by (rule Summary.equality) (simp_all add: e1 e2 e3 e4 e5)
qed

text \<open>
  Claim C10: the summary of every view has \<open>earnedXP \<le> totalXP\<close>: what an event adds to
  \<open>earnedXP\<close> it has added to \<open>totalXP\<close>.
\<close>

theorem calculateSummary_earned_le_total:
  "earnedXP (calculateSummary view) \<le> totalXP (calculateSummary view)"
  unfolding calculateSummary_def summaryLoop_totalXP summaryLoop_earnedXP
  by (simp add: sum_list_mono difficultyXP_nonneg)

text \<open>
  Claim C4: an event whose type is none of \<open>task\<close>, \<open>event\<close>, \<open>reminder\<close>, and an event
  with a malformed difficulty, adds nothing to \<open>earnedXP\<close> or \<open>totalXP\<close>.

  As stated this fails for the type: the loop skips the types \<open>event\<close> and \<open>reminder\<close>
  only, so an event of any other type reaches the \<open>switch\<close> on the difficulty. A finished
  event of type \<open>meeting\<close> and difficulty 2 adds 400 to both.
\<close>

theorem calculateSummary_malformed_type_counterexample:
  "JStr ''meeting'' \<notin> {JStr ''task'', JStr ''event'', JStr ''reminder''}
   \<and> earnedXP (calculateSummary [exampleEvent 1 ''09:00'' (JStr ''meeting'') (JNum 2) (JBool True)]) = 400
   \<and> totalXP (calculateSummary [exampleEvent 1 ''09:00'' (JStr ''meeting'') (JNum 2) (JBool True)]) = 400"
  by (simp add: calculateSummary_def exampleEvent_def switchDifficulty_def)

text \<open>
  Claim C4, amended: an event whose difficulty is none of the numbers 1, 2, 3 adds nothing
  to \<open>earnedXP\<close> or \<open>totalXP\<close>, whatever its type and wherever it stands in the view; an
  event whose type is none of \<open>task\<close>, \<open>event\<close>, \<open>reminder\<close> adds the XP of its difficulty
  to \<open>totalXP\<close>, and to \<open>earnedXP\<close> when it is finished, as a task does.
\<close>

theorem calculateSummary_malformed:
  "(difficulty e \<noteq> JNum 1 \<and> difficulty e \<noteq> JNum 2 \<and> difficulty e \<noteq> JNum 3 \<longrightarrow>
       earnedXP (calculateSummary (xs @ e # ys)) = earnedXP (calculateSummary (xs @ ys))
     \<and> totalXP (calculateSummary (xs @ e # ys)) = totalXP (calculateSummary (xs @ ys)))
   \<and> (type_f e \<noteq> JStr ''task'' \<and> type_f e \<noteq> JStr ''event'' \<and> type_f e \<noteq> JStr ''reminder'' \<longrightarrow>
       totalXP (calculateSummary (xs @ e # ys))
         = totalXP (calculateSummary (xs @ ys)) + difficultyXP (difficulty e)
     \<and> earnedXP (calculateSummary (xs @ e # ys))
         = earnedXP (calculateSummary (xs @ ys))
           + (if finished e = JBool True then difficultyXP (difficulty e) else 0))"
  unfolding calculateSummary_def summaryLoop_totalXP summaryLoop_earnedXP sum_list_insert
  by (simp add: difficultyXP_def reachesSwitch_def)

theorem calculateSummary_malformed_witness:
  "earnedXP (calculateSummary [exampleEvent 1 ''09:00'' (JStr ''task'') (JStr ''hard'') (JBool True)]) = 0
   \<and> totalXP (calculateSummary [exampleEvent 1 ''09:00'' (JStr ''task'') (JStr ''hard'') (JBool True)]) = 0
   \<and> totalXP (calculateSummary [exampleEvent 2 ''10:00'' (JStr ''meeting'') (JNum 3) (JBool False)]) = 750
   \<and> earnedXP (calculateSummary [exampleEvent 2 ''10:00'' (JStr ''meeting'') (JNum 3) (JBool False)]) = 0"
  using calculateSummary_malformed
      [of "exampleEvent 1 ''09:00'' (JStr ''task'') (JStr ''hard'') (JBool True)" "[]" "[]"]
    calculateSummary_malformed
      [of "exampleEvent 2 ''10:00'' (JStr ''meeting'') (JNum 3) (JBool False)" "[]" "[]"]
  by (simp add: exampleEvent_def difficultyXP_def calculateSummary_def)

section \<open>Properties of the day model\<close>

subsection \<open>filter and sort\<close>

lemma filter_js_total:
  "(\<And>x. x \<in> set xs \<Longrightarrow> p x = Inr (q x)) \<Longrightarrow> filter_js p xs = Inr (filter q xs)"
  by (induction xs) simp_all

lemma insort_js_mset: "insort_js cmp x ys = Inr zs \<Longrightarrow> mset zs = add_mset x (mset ys)"
  by (induction ys arbitrary: zs) (auto split: sum.splits if_splits)

lemma sort_js_mset: "sort_js cmp xs = Inr ys \<Longrightarrow> mset ys = mset xs"
  by (induction xs arbitrary: ys) (auto split: sum.splits dest: insort_js_mset)

lemma sort_js_short: "length xs \<le> 1 \<Longrightarrow> sort_js cmp xs = Inr xs"
  by (cases xs) (simp_all add: Suc_le_eq)

lemma insort_js_total:
  "(\<And>b. b \<in> set ys \<Longrightarrow> \<exists>c. cmp x b = Inr c) \<Longrightarrow> \<exists>zs. insort_js cmp x ys = Inr zs"
proof (induction ys)
  case Nil
  then show ?case by simp
next
  case (Cons y ys)
  obtain c where c: "cmp x y = Inr c" using Cons.prems[of y] by auto
  obtain zs where "insort_js cmp x ys = Inr zs" using Cons by auto
  with c show ?case by simp
qed

lemma sort_js_total:
  "(\<And>a b. a \<in> set xs \<Longrightarrow> b \<in> set xs \<Longrightarrow> \<exists>c. cmp a b = Inr c)
   \<Longrightarrow> \<exists>ys. sort_js cmp xs = Inr ys"
proof (induction xs)
  case Nil
  then show ?case by simp
next
  case (Cons x xs)
  obtain ys where ys: "sort_js cmp xs = Inr ys" using Cons by auto
  have "set ys = set xs" using sort_js_mset[OF ys] by (rule mset_eq_setD)
  then have "\<exists>zs. insort_js cmp x ys = Inr zs"
    by (intro insort_js_total) (use Cons.prems in auto)
  with ys show ?case by simp
qed

lemma insort_js_key:
  "(\<And>b. b \<in> set ys \<Longrightarrow> \<exists>c. cmp x b = Inr c \<and> (c \<le> 0) = (k x \<le> k b))
   \<Longrightarrow> insort_js cmp x ys = Inr (insort_key k x ys)"
proof (induction ys)
  case Nil
  then show ?case by simp
next
  case (Cons y ys)
  obtain c where c: "cmp x y = Inr c" "(c \<le> 0) = (k x \<le> k y)" using Cons.prems[of y] by auto
  have "insort_js cmp x ys = Inr (insort_key k x ys)" using Cons by auto
  with c show ?case by simp
qed

text \<open>With a comparator that orders by a key, \<open>sort\<close> is the stable sort by that key.\<close>

lemma sort_js_key:
  "(\<And>a b. a \<in> set xs \<Longrightarrow> b \<in> set xs \<Longrightarrow> \<exists>c. cmp a b = Inr c \<and> (c \<le> 0) = (k a \<le> k b))
   \<Longrightarrow> sort_js cmp xs = Inr (sort_key k xs)"
proof (induction xs)
  case Nil
  then show ?case by simp
next
  case (Cons x xs)
  have s: "sort_js cmp xs = Inr (sort_key k xs)" using Cons by auto
  have "insort_js cmp x (sort_key k xs) = Inr (insort_key k x (sort_key k xs))"
    by (rule insort_js_key) (use Cons.prems in auto)
  with s show ?case by simp
qed

subsection \<open>The two arrow functions\<close>

lemma toStringMethod_hasDate: "hasDate v \<Longrightarrow> toStringMethod v = Inr (toString v)"
  by (cases v) (simp_all add: hasDate_def toStringMethod_def)

lemma dateMatches_hasDate:
  "hasDate (date e) \<Longrightarrow> hasDate (date_d this) \<Longrightarrow> dateMatches this e = Inr (sameDate this e)"
  by (simp add: dateMatches_def sameDate_def toStringMethod_hasDate)

lemma hourOf_isString: "hourOf e \<noteq> None \<Longrightarrow> isString (startTime e)"
  by (cases "startTime e") (simp_all add: hourOf_def isString_def)

lemma compareStartTime_strings:
  "isString (startTime a) \<Longrightarrow> isString (startTime b) \<Longrightarrow> \<exists>c. compareStartTime a b = Inr c"
  by (cases "startTime a"; cases "startTime b")
     (simp_all add: isString_def compareStartTime_def sliceMethod_def Let_def)

lemma compareStartTime_key:
  assumes "hourOf a = Some x" "hourOf b = Some y"
  shows "\<exists>c. compareStartTime a b = Inr c \<and> (c \<le> 0) = (x \<le> y)"
  using assms
  by (cases "startTime a"; cases "startTime b")
     (auto simp: compareStartTime_def sliceMethod_def hourOf_def numLess_def numGreater_def Let_def)

lemma sort_js_startTime_total:
  assumes "length m \<le> 1 \<or> (\<forall>e\<in>set m. isString (startTime e))"
  shows "\<exists>ys. sort_js compareStartTime m = Inr ys"
  using assms
proof
  assume "length m \<le> 1"
  then show ?thesis by (simp add: sort_js_short)
next
  assume "\<forall>e\<in>set m. isString (startTime e)"
  then show ?thesis by (intro sort_js_total compareStartTime_strings) auto
qed

lemma sort_js_hour:
  assumes "\<forall>e\<in>set xs. hourOf e \<noteq> None"
  shows "sort_js compareStartTime xs = Inr (sort_key (\<lambda>e. the (hourOf e)) xs)"
proof (rule sort_js_key)
  fix a b assume "a \<in> set xs" "b \<in> set xs"
  with assms obtain x y where "hourOf a = Some x" "hourOf b = Some y" by fastforce
  then show "\<exists>c. compareStartTime a b = Inr c \<and> (c \<le> 0) = (the (hourOf a) \<le> the (hourOf b))"
    using compareStartTime_key by simp
qed

lemma stable_by_hour:
  assumes "\<forall>e\<in>set xs. hourOf e \<noteq> None"
  shows "filter (\<lambda>e. hourOf e = k) (sort_key (\<lambda>e. the (hourOf e)) xs) = filter (\<lambda>e. hourOf e = k) xs"
proof (cases k)
  case None
  have "filter (\<lambda>e. hourOf e = None) ys = []" if "set ys \<subseteq> set xs" for ys
    using that assms by (auto simp: filter_empty_conv)
  then show ?thesis using None by simp
next
  case (Some n)
  have eq: "\<And>ys. set ys \<subseteq> set xs \<Longrightarrow>
      filter (\<lambda>e. hourOf e = Some n) ys = filter (\<lambda>e. the (hourOf e) = n) ys"
    using assms by (intro filter_cong) auto
  show ?thesis using Some eq[of xs] eq[of "sort_key (\<lambda>e. the (hourOf e)) xs"]
    by (simp add: sort_key_stable)
qed

subsection \<open>refreshEventList\<close>

text \<open>
  When every date can be read and the comparator is not called on a start time that is not
  a string, \<open>refreshEventList\<close> returns: the view is a new array, the sorted copy of the
  matching events.
\<close>

lemma refreshEventList_returns:
  assumes g: "g < length h"
    and dates: "\<forall>e\<in>set (h ! g). hasDate (date e)"
    and day: "hasDate (date_d this)"
    and starts: "length (filter (sameDate this) (h ! g)) \<le> 1
                 \<or> (\<forall>e\<in>set (filter (sameDate this) (h ! g)). isString (startTime e))"
  shows "\<exists>ys. sort_js compareStartTime (filter (sameDate this) (h ! g)) = Inr ys
     \<and> refreshEventList this g h = (Inr (this\<lparr>eventList := Some (length h)\<rparr>), h @ [ys])"
proof -
  let ?m = "filter (sameDate this) (h ! g)"
  have f: "filter_js (dateMatches this) (h ! g) = Inr ?m"
    by (rule filter_js_total) (use dates day in \<open>simp add: dateMatches_hasDate\<close>)
  obtain ys where ys: "sort_js compareStartTime ?m = Inr ys"
    using sort_js_startTime_total[OF starts] by blast
  have "refreshEventList this g h = (Inr (this\<lparr>eventList := Some (length h)\<rparr>), h @ [ys])"
    using g by (simp add: refreshEventList_def array_filter_def array_sort_def f ys)
  with ys show ?thesis by blast
qed

text \<open>Whatever the outcome, the arrays that existed before the call are as before.\<close>

lemma refreshEventList_frame:
  "take (length h) (snd (refreshEventList this g h)) = h
   \<and> (case fst (refreshEventList this g h) of
         Inl e \<Rightarrow> snd (refreshEventList this g h) = h \<or> length (snd (refreshEventList this g h)) = Suc (length h)
       | Inr d \<Rightarrow> d = this\<lparr>eventList := Some (length h)\<rparr>
                  \<and> length (snd (refreshEventList this g h)) = Suc (length h))"
  by (simp add: refreshEventList_def array_filter_def array_sort_def split: sum.splits)

text \<open>
  Claim C5: for every event collection, \<open>refreshEventList\<close> replaces the day's event view
  with exactly the events of the collection whose date, trimmed, equals the day's, sorted
  ascending by the integer parsed from the first two characters of \<open>startTime\<close>, events
  of equal hour in their order in the collection.

  As stated, for every collection, this fails in three ways.

  The first two characters of a start time need not parse, and the comparator answers 0
  whenever one of its two hours is NaN. With the start times 14:00, TBD and 09:00 every
  comparison of neighbours answers 0: a sort that inserts or merges by comparing
  neighbours leaves the array as it is, and the view keeps the order of the collection,
  14 before 9.

  An event without a date, be it of another day, makes \<open>obj.date.toString()\<close> raise a
  TypeError in the callback of \<open>filter\<close>: the call ends there and the view is not replaced.

  With two matching events of which one has a start time that is not a string,
  \<open>a.startTime.slice\<close> raises a TypeError in the comparator, and the view is not
  replaced either.
\<close>

theorem refreshEventList_unparsed_hour_counterexample:
  "refreshEventList \<lparr>date_d = JStr ''01-01-2024'', eventList = None\<rparr> 0
     [[exampleEvent 1 ''14:00'' (JStr ''event'') JUndefined (JBool False),
       exampleEvent 2 ''TBD'' (JStr ''event'') JUndefined (JBool False),
       exampleEvent 3 ''09:00'' (JStr ''event'') JUndefined (JBool False)]]
   = (Inr \<lparr>date_d = JStr ''01-01-2024'', eventList = Some 1\<rparr>,
      [[exampleEvent 1 ''14:00'' (JStr ''event'') JUndefined (JBool False),
        exampleEvent 2 ''TBD'' (JStr ''event'') JUndefined (JBool False),
        exampleEvent 3 ''09:00'' (JStr ''event'') JUndefined (JBool False)],
       [exampleEvent 1 ''14:00'' (JStr ''event'') JUndefined (JBool False),
        exampleEvent 2 ''TBD'' (JStr ''event'') JUndefined (JBool False),
        exampleEvent 3 ''09:00'' (JStr ''event'') JUndefined (JBool False)]])
   \<and> hourOf (exampleEvent 1 ''14:00'' (JStr ''event'') JUndefined (JBool False)) = Some 14
   \<and> hourOf (exampleEvent 2 ''TBD'' (JStr ''event'') JUndefined (JBool False)) = None
   \<and> hourOf (exampleEvent 3 ''09:00'' (JStr ''event'') JUndefined (JBool False)) = Some 9
   \<and> refreshEventList \<lparr>date_d = JStr ''01-01-2024'', eventList = None\<rparr> 0
        [[exampleEvent 1 ''09:00'' (JStr ''event'') JUndefined (JBool False),
          (exampleEvent 2 ''10:00'' (JStr ''event'') JUndefined (JBool False))\<lparr>date := JUndefined\<rparr>]]
      = (Inl TypeError,
         [[exampleEvent 1 ''09:00'' (JStr ''event'') JUndefined (JBool False),
           (exampleEvent 2 ''10:00'' (JStr ''event'') JUndefined (JBool False))\<lparr>date := JUndefined\<rparr>]])
   \<and> fst (refreshEventList \<lparr>date_d = JStr ''01-01-2024'', eventList = None\<rparr> 0
        [[exampleEvent 1 ''09:00'' (JStr ''event'') JUndefined (JBool False),
          (exampleEvent 2 ''10:00'' (JStr ''event'') JUndefined (JBool False))\<lparr>startTime := JNum 10\<rparr>]])
      = Inl TypeError"
proof -
  have p: "parseInt (slice02 ''14:00'') = Some 14" "parseInt (slice02 ''TBD'') = None"
    "parseInt (slice02 ''09:00'') = Some 9"
    by (simp_all add: slice02_def parseInt_def isWhiteSpace_def digitValue_def)
  have t: "trim ''01-01-2024'' = ''01-01-2024''"
    by (simp add: trim_def isWhiteSpace_def)
  have a: "refreshEventList \<lparr>date_d = JStr ''01-01-2024'', eventList = None\<rparr> 0
     [[exampleEvent 1 ''14:00'' (JStr ''event'') JUndefined (JBool False),
       exampleEvent 2 ''TBD'' (JStr ''event'') JUndefined (JBool False),
       exampleEvent 3 ''09:00'' (JStr ''event'') JUndefined (JBool False)]]
   = (Inr \<lparr>date_d = JStr ''01-01-2024'', eventList = Some 1\<rparr>,
      [[exampleEvent 1 ''14:00'' (JStr ''event'') JUndefined (JBool False),
        exampleEvent 2 ''TBD'' (JStr ''event'') JUndefined (JBool False),
        exampleEvent 3 ''09:00'' (JStr ''event'') JUndefined (JBool False)],
       [exampleEvent 1 ''14:00'' (JStr ''event'') JUndefined (JBool False),
        exampleEvent 2 ''TBD'' (JStr ''event'') JUndefined (JBool False),
        exampleEvent 3 ''09:00'' (JStr ''event'') JUndefined (JBool False)]])"
    by (simp add: refreshEventList_def array_filter_def array_sort_def dateMatches_def
        toStringMethod_def sliceMethod_def toString_def exampleEvent_sel compareStartTime_def
        p t numLess_def numGreater_def)
  have b: "hourOf (exampleEvent 1 ''14:00'' (JStr ''event'') JUndefined (JBool False)) = Some 14"
    "hourOf (exampleEvent 2 ''TBD'' (JStr ''event'') JUndefined (JBool False)) = None"
    "hourOf (exampleEvent 3 ''09:00'' (JStr ''event'') JUndefined (JBool False)) = Some 9"
    by (simp_all add: hourOf_def exampleEvent_sel p)
  have c: "refreshEventList \<lparr>date_d = JStr ''01-01-2024'', eventList = None\<rparr> 0
        [[exampleEvent 1 ''09:00'' (JStr ''event'') JUndefined (JBool False),
          (exampleEvent 2 ''10:00'' (JStr ''event'') JUndefined (JBool False))\<lparr>date := JUndefined\<rparr>]]
      = (Inl TypeError,
         [[exampleEvent 1 ''09:00'' (JStr ''event'') JUndefined (JBool False),
           (exampleEvent 2 ''10:00'' (JStr ''event'') JUndefined (JBool False))\<lparr>date := JUndefined\<rparr>]])"
    by (simp add: refreshEventList_def array_filter_def dateMatches_def
        toStringMethod_def toString_def exampleEvent_sel t)
  have d: "fst (refreshEventList \<lparr>date_d = JStr ''01-01-2024'', eventList = None\<rparr> 0
        [[exampleEvent 1 ''09:00'' (JStr ''event'') JUndefined (JBool False),
          (exampleEvent 2 ''10:00'' (JStr ''event'') JUndefined (JBool False))\<lparr>startTime := JNum 10\<rparr>]])
      = Inl TypeError"
    by (simp add: refreshEventList_def array_filter_def array_sort_def dateMatches_def
        toStringMethod_def sliceMethod_def toString_def exampleEvent_sel compareStartTime_def
        p t)
  from a b c d show ?thesis by blast
qed

text \<open>
  Claim C5, amended: let every event of the collection, and the day, have a date that is
  neither \<open>undefined\<close> nor \<open>null\<close>, and let at most one event match or the start time
  of every matching event be a string. Then \<open>refreshEventList\<close> returns and the new view
  (a fresh array) holds exactly the matching events. When moreover the first two
  characters of the start time of every matching event parse to an integer, the view is
  sorted ascending by that integer and keeps events of equal hour in their order in the
  collection.
\<close>

theorem refreshEventList_sorted_stable:
  assumes "g < length h"
    and "\<forall>e\<in>set (h ! g). hasDate (date e)"
    and "hasDate (date_d this)"
    and "length (filter (sameDate this) (h ! g)) \<le> 1
         \<or> (\<forall>e\<in>set (filter (sameDate this) (h ! g)). isString (startTime e))"
  shows "\<exists>r h'. refreshEventList this g h = (Inr (this\<lparr>eventList := Some r\<rparr>), h')
      \<and> mset (h' ! r) = mset (filter (sameDate this) (h ! g))
      \<and> ((\<forall>e\<in>set (filter (sameDate this) (h ! g)). hourOf e \<noteq> None) \<longrightarrow>
            sorted (map (\<lambda>e. the (hourOf e)) (h' ! r))
          \<and> (\<forall>k. filter (\<lambda>e. hourOf e = k) (h' ! r)
                 = filter (\<lambda>e. hourOf e = k) (filter (sameDate this) (h ! g))))"
proof -
  let ?m = "filter (sameDate this) (h ! g)"
  let ?s = "sort_key (\<lambda>e. the (hourOf e)) ?m"
  obtain ys where ys: "sort_js compareStartTime ?m = Inr ys"
    and r: "refreshEventList this g h = (Inr (this\<lparr>eventList := Some (length h)\<rparr>), h @ [ys])"
    using refreshEventList_returns[OF assms] by blast
  have n: "(h @ [ys]) ! length h = ys" by simp
  have m: "mset ys = mset ?m" by (rule sort_js_mset[OF ys])
  have o: "sorted (map (\<lambda>e. the (hourOf e)) ys)
           \<and> (\<forall>k. filter (\<lambda>e. hourOf e = k) ys = filter (\<lambda>e. hourOf e = k) ?m)"
    if all: "\<forall>e\<in>set ?m. hourOf e \<noteq> None"
  proof -
    have "ys = ?s" using sort_js_hour[OF all] ys by simp
    then show ?thesis using stable_by_hour[OF all] by simp
  qed
  have "refreshEventList this g h = (Inr (this\<lparr>eventList := Some (length h)\<rparr>), h @ [ys])
      \<and> mset ((h @ [ys]) ! length h) = mset ?m
      \<and> ((\<forall>e\<in>set ?m. hourOf e \<noteq> None) \<longrightarrow>
            sorted (map (\<lambda>e. the (hourOf e)) ((h @ [ys]) ! length h))
          \<and> (\<forall>k. filter (\<lambda>e. hourOf e = k) ((h @ [ys]) ! length h)
                 = filter (\<lambda>e. hourOf e = k) ?m))"
    unfolding n using r m o by blast
  then show ?thesis by blast
qed

theorem refreshEventList_sorted_stable_witness:
  "refreshEventList \<lparr>date_d = JStr ''01-01-2024'', eventList = None\<rparr> 0
     [[exampleEvent 1 ''14:30'' (JStr ''event'') JUndefined (JBool False),
       exampleEvent 2 ''09:45'' (JStr ''task'') (JNum 1) (JBool False),
       (exampleEvent 3 ''08:00'' (JStr ''event'') JUndefined (JBool False))\<lparr>date := JStr ''02-01-2024''\<rparr>,
       (exampleEvent 4 ''09:00'' (JStr ''reminder'') JUndefined (JBool False))\<lparr>date := JStr '' 01-01-2024 ''\<rparr>]]
   = (Inr \<lparr>date_d = JStr ''01-01-2024'', eventList = Some 1\<rparr>,
      [[exampleEvent 1 ''14:30'' (JStr ''event'') JUndefined (JBool False),
        exampleEvent 2 ''09:45'' (JStr ''task'') (JNum 1) (JBool False),
        (exampleEvent 3 ''08:00'' (JStr ''event'') JUndefined (JBool False))\<lparr>date := JStr ''02-01-2024''\<rparr>,
        (exampleEvent 4 ''09:00'' (JStr ''reminder'') JUndefined (JBool False))\<lparr>date := JStr '' 01-01-2024 ''\<rparr>],
       [exampleEvent 2 ''09:45'' (JStr ''task'') (JNum 1) (JBool False),
        (exampleEvent 4 ''09:00'' (JStr ''reminder'') JUndefined (JBool False))\<lparr>date := JStr '' 01-01-2024 ''\<rparr>,
        exampleEvent 1 ''14:30'' (JStr ''event'') JUndefined (JBool False)]])"
proof -
  let ?h = "[[exampleEvent 1 ''14:30'' (JStr ''event'') JUndefined (JBool False),
       exampleEvent 2 ''09:45'' (JStr ''task'') (JNum 1) (JBool False),
       (exampleEvent 3 ''08:00'' (JStr ''event'') JUndefined (JBool False))\<lparr>date := JStr ''02-01-2024''\<rparr>,
       (exampleEvent 4 ''09:00'' (JStr ''reminder'') JUndefined (JBool False))\<lparr>date := JStr '' 01-01-2024 ''\<rparr>]]"
  let ?d = "\<lparr>date_d = JStr ''01-01-2024'', eventList = None\<rparr>"
  have p: "parseInt (slice02 ''14:30'') = Some 14" "parseInt (slice02 ''09:45'') = Some 9"
    "parseInt (slice02 ''08:00'') = Some 8" "parseInt (slice02 ''09:00'') = Some 9"
    by (simp_all add: slice02_def parseInt_def isWhiteSpace_def digitValue_def)
  have t: "trim ''01-01-2024'' = ''01-01-2024''" "trim '' 01-01-2024 '' = ''01-01-2024''"
    "trim ''02-01-2024'' = ''02-01-2024''"
    by (simp_all add: trim_def isWhiteSpace_def)
  have g: "0 < length ?h" by simp
  have a: "\<forall>e\<in>set (?h ! 0). hasDate (date e)"
    by (simp add: exampleEvent_sel hasDate_def)
  have b: "hasDate (date_d ?d)"
    by (simp add: hasDate_def)
  have c: "length (filter (sameDate ?d) (?h ! 0)) \<le> 1
           \<or> (\<forall>e\<in>set (filter (sameDate ?d) (?h ! 0)). isString (startTime e))"
    by (simp add: exampleEvent_sel isString_def)
  have "\<exists>r h'. refreshEventList ?d 0 ?h = (Inr (?d\<lparr>eventList := Some r\<rparr>), h')"
    using refreshEventList_sorted_stable[OF g a b c] by blast
  then show ?thesis
    by (simp add: refreshEventList_def array_filter_def array_sort_def dateMatches_def
        toStringMethod_def sliceMethod_def toString_def exampleEvent_sel compareStartTime_def
        p t numLess_def numGreater_def)
qed

text \<open>
  Claim C9: \<open>refreshEventList\<close> leaves the shared collection unchanged: the array
  \<open>globalEventList\<close> refers to, and every other array that existed before the call, has
  the same events in the same order afterwards, whether the call returns or raises. When
  it returns, the day's view is an array allocated by the call; and it returns whenever
  every date is neither \<open>undefined\<close> nor \<open>null\<close> and every start time is a string.
\<close>

theorem refreshEventList_keeps_collection:
  assumes "g < length h"
  shows "\<exists>out h'. refreshEventList this g h = (out, h') \<and> h' ! g = h ! g
     \<and> take (length h) h' = h
     \<and> (\<forall>d'. out = Inr d' \<longrightarrow> eventList d' = Some (length h) \<and> length h' = Suc (length h))
     \<and> (hasDate (date_d this) \<and> (\<forall>e\<in>set (h ! g). hasDate (date e) \<and> isString (startTime e))
          \<longrightarrow> (\<exists>d'. out = Inr d'))"
proof -
  obtain out h' where r: "refreshEventList this g h = (out, h')"
    by (cases "refreshEventList this g h")
  have f: "take (length h) h' = h"
    using refreshEventList_frame[of h this g] r by simp
  have "h' ! g = take (length h) h' ! g" using assms by simp
  then have n: "h' ! g = h ! g" using f by simp
  have v: "\<forall>d'. out = Inr d' \<longrightarrow> eventList d' = Some (length h) \<and> length h' = Suc (length h)"
    using refreshEventList_frame[of h this g] r by auto
  have t: "\<exists>d'. out = Inr d'"
    if "hasDate (date_d this) \<and> (\<forall>e\<in>set (h ! g). hasDate (date e) \<and> isString (startTime e))"
    using refreshEventList_returns[OF assms, of this] that r by auto
  from r f n v t show ?thesis by blast
qed

theorem refreshEventList_keeps_collection_witness:
  "(0::nat) < length [[exampleEvent 1 ''14:30'' (JStr ''event'') JUndefined (JBool False),
                       exampleEvent 2 ''09:45'' (JStr ''task'') (JNum 1) (JBool False)]]
   \<and> (\<exists>d' h'. refreshEventList \<lparr>date_d = JStr ''01-01-2024'', eventList = None\<rparr> 0
          [[exampleEvent 1 ''14:30'' (JStr ''event'') JUndefined (JBool False),
            exampleEvent 2 ''09:45'' (JStr ''task'') (JNum 1) (JBool False)]] = (Inr d', h')
        \<and> h' ! 0 = [exampleEvent 1 ''14:30'' (JStr ''event'') JUndefined (JBool False),
                     exampleEvent 2 ''09:45'' (JStr ''task'') (JNum 1) (JBool False)]
        \<and> take 1 h' = [[exampleEvent 1 ''14:30'' (JStr ''event'') JUndefined (JBool False),
                         exampleEvent 2 ''09:45'' (JStr ''task'') (JNum 1) (JBool False)]]
        \<and> eventList d' = Some 1 \<and> length h' = 2)"
proof -
  let ?h = "[[exampleEvent 1 ''14:30'' (JStr ''event'') JUndefined (JBool False),
              exampleEvent 2 ''09:45'' (JStr ''task'') (JNum 1) (JBool False)]]"
  let ?d = "\<lparr>date_d = JStr ''01-01-2024'', eventList = None\<rparr>"
  have g: "0 < length ?h" by simp
  have a: "hasDate (date_d ?d) \<and> (\<forall>e\<in>set (?h ! 0). hasDate (date e) \<and> isString (startTime e))"
    by (simp add: exampleEvent_sel hasDate_def isString_def)
  obtain out h' where o: "refreshEventList ?d 0 ?h = (out, h')" "h' ! 0 = ?h ! 0"
    "take (length ?h) h' = ?h"
    "\<forall>d'. out = Inr d' \<longrightarrow> eventList d' = Some (length ?h) \<and> length h' = Suc (length ?h)"
    "hasDate (date_d ?d) \<and> (\<forall>e\<in>set (?h ! 0). hasDate (date e) \<and> isString (startTime e))
       \<longrightarrow> (\<exists>d'. out = Inr d')"
    using refreshEventList_keeps_collection[OF g, of ?d] by blast
  obtain d' where d: "out = Inr d'" using o(5) a by blast
  have "eventList d' = Some 1 \<and> length h' = 2" using o(4) d by simp
  moreover have "h' ! 0 = ?h ! 0" "take 1 h' = ?h" using o(2,3) by simp_all
  ultimately show ?thesis using o(1) d g by simp
qed

section \<open>Properties of the calendar\<close>

lemma DayFromYear_1970: "DayFromYear 1970 = 0"
  by (simp add: DayFromYear_def)

lemma DayFromYear_step_up: "DayFromYear y + 365 \<le> DayFromYear (y + 1)"
  using DayFromYear_Suc[of y] DaysInYear_cases[of y] by linarith

lemma DayFromYear_step_le: "DayFromYear (y + 1) \<le> DayFromYear y + 366"
  using DayFromYear_Suc[of y] DaysInYear_cases[of y] by linarith

lemma DayFromYear_mono_aux: "DayFromYear y + 365 * int n \<le> DayFromYear (y + int n)"
proof (induction n)
  case 0
  then show ?case by simp
next
  case (Suc n)
  have "DayFromYear (y + int n) + 365 \<le> DayFromYear (y + int n + 1)"
    by (rule DayFromYear_step_up)
  with Suc show ?case by (simp add: algebra_simps)
qed

lemma DayFromYear_upper_aux: "DayFromYear (y + int n) \<le> DayFromYear y + 366 * int n"
proof (induction n)
  case 0
  then show ?case by simp
next
  case (Suc n)
  have "DayFromYear (y + int n + 1) \<le> DayFromYear (y + int n) + 366"
    by (rule DayFromYear_step_le)
  with Suc show ?case by (simp add: algebra_simps)
qed

lemma DayFromYear_mono: "y \<le> z \<Longrightarrow> DayFromYear y + 365 * (z - y) \<le> DayFromYear z"
  using DayFromYear_mono_aux[of y "nat (z - y)"] by simp

lemma DayFromYear_upper: "y \<le> z \<Longrightarrow> DayFromYear z \<le> DayFromYear y + 366 * (z - y)"
  using DayFromYear_upper_aux[of y "nat (z - y)"] by simp

lemma DayFromYear_less: "y < z \<Longrightarrow> DayFromYear (y + 1) \<le> DayFromYear z"
  using DayFromYear_mono[of "y + 1" z] by simp

text \<open>The year the search starts from is not after the year of the day.\<close>

lemma year_estimate:
  "DayFromYear (1970 + (if 0 \<le> d then d div 366 else d div 365)) \<le> d"
proof (cases "0 \<le> d")
  case True
  define q where "q = d div 366"
  have q: "0 \<le> q" "366 * q \<le> d"
    using True by (simp_all add: q_def pos_imp_zdiv_nonneg_iff)
  have "DayFromYear (1970 + q) \<le> DayFromYear 1970 + 366 * (1970 + q - 1970)"
    by (rule DayFromYear_upper) (use q in simp)
  then show ?thesis using q True by (simp add: q_def DayFromYear_1970)
next
  case False
  define q where "q = d div 365"
  have q: "q < 0" "365 * q \<le> d"
    using False by (simp_all add: q_def neg_imp_zdiv_neg_iff)
  have "DayFromYear (1970 + q) + 365 * (1970 - (1970 + q)) \<le> DayFromYear 1970"
    by (rule DayFromYear_mono) (use q in simp)
  then show ?thesis using q False by (simp add: q_def DayFromYear_1970)
qed

lemma yearSearch_bounds:
  "DayFromYear y \<le> d \<Longrightarrow>
     DayFromYear (yearSearch d y) \<le> d \<and> d < DayFromYear (yearSearch d y + 1)"
proof (induction d y rule: yearSearch.induct)
  case (1 d y)
  show ?case
  proof (cases "DayFromYear (y + 1) \<le> d")
    case True
    then show ?thesis using 1 by (simp add: yearSearch.simps[of d y])
  next
    case False
    then show ?thesis using 1 by (simp add: yearSearch.simps[of d y])
  qed
qed

lemma YearFromTime_bounds:
  "DayFromYear (YearFromTime t) \<le> Day t \<and> Day t < DayFromYear (YearFromTime t + 1)"
  unfolding YearFromTime_def by (rule yearSearch_bounds) (rule year_estimate)

lemma year_unique:
  assumes "DayFromYear y \<le> d" "d < DayFromYear (y + 1)"
    and "DayFromYear z \<le> d" "d < DayFromYear (z + 1)"
  shows "y = z"
proof (rule ccontr)
  assume "y \<noteq> z"
  then consider "y < z" | "z < y" by linarith
  then show False
  proof cases
    case 1
    then show False using DayFromYear_less[of y z] assms by linarith
  next
    case 2
    then show False using DayFromYear_less[of z y] assms by linarith
  qed
qed

lemma YearFromTime_eq:
  assumes "DayFromYear y \<le> Day t" "Day t < DayFromYear (y + 1)"
  shows "YearFromTime t = y"
  using year_unique[OF _ _ assms] YearFromTime_bounds[of t] by simp

lemma DayWithinYear_bounds:
  "0 \<le> DayWithinYear t \<and> DayWithinYear t < DaysInYear (YearFromTime t)"
  using YearFromTime_bounds[of t] DayFromYear_Suc[of "YearFromTime t"]
  by (simp add: DayWithinYear_def)

lemma leapDay_cases: "leapDay y = 0 \<or> leapDay y = 1"
  by (simp add: leapDay_def)

lemma DaysInYear_leapDay: "DaysInYear y = 365 + leapDay y"
  using DaysInYear_cases[of y] by (auto simp: leapDay_def)

lemma MonthFromTime_range: "0 \<le> MonthFromTime t \<and> MonthFromTime t \<le> 11"
  by (simp add: MonthFromTime_def Let_def)

lemma DateFromTime_range:
  "1 \<le> DateFromTime t \<and> DateFromTime t \<le> DaysInMonth (MonthFromTime t) (InLeapYear t)"
proof -
  have b: "0 \<le> DayWithinYear t" "DayWithinYear t < 365 + InLeapYear t"
    using DayWithinYear_bounds[of t] by (simp_all add: DaysInYear_leapDay InLeapYear_def)
  have l: "InLeapYear t = 0 \<or> InLeapYear t = 1"
    using leapDay_cases by (simp add: InLeapYear_def)
  show ?thesis
    using b l unfolding DateFromTime_def MonthFromTime_def monthStart_def DaysInMonth_def Let_def
    by auto
qed

lemma Day_decomposition:
  "Day t = DayFromYear (YearFromTime t) + monthStart (MonthFromTime t) (InLeapYear t)
           + DateFromTime t - 1"
  by (simp add: DateFromTime_def DayWithinYear_def)

lemma monthStart_bounds:
  assumes "0 \<le> m" "m \<le> 11" "l = 0 \<or> l = 1" "1 \<le> dt" "dt \<le> DaysInMonth m l"
  shows "0 \<le> monthStart m l + dt - 1 \<and> monthStart m l + dt - 1 < 365 + l"
  using assms unfolding monthStart_def DaysInMonth_def by auto

lemma month_cases:
  assumes "0 \<le> m" "m \<le> 11"
  shows "m = 0 \<or> m = 1 \<or> m = 2 \<or> m = 3 \<or> m = 4 \<or> m = 5 \<or> m = 6 \<or> m = 7 \<or> m = 8
         \<or> m = 9 \<or> m = 10 \<or> m = (11::int)"
  using assms by presburger

lemma month_table:
  assumes "0 \<le> m" "m \<le> 11" "l = 0 \<or> l = 1" "1 \<le> dt" "dt \<le> DaysInMonth m l"
  shows "(let d = monthStart m l + dt - 1; leap = l in
      if d < 31 then 0 else if d < 59 + leap then 1 else if d < 90 + leap then 2
      else if d < 120 + leap then 3 else if d < 151 + leap then 4 else if d < 181 + leap then 5
      else if d < 212 + leap then 6 else if d < 243 + leap then 7 else if d < 273 + leap then 8
      else if d < 304 + leap then 9 else if d < 334 + leap then 10 else 11) = m"
proof -
  consider "m = 0" | "m = 1" | "m = 2" | "m = 3" | "m = 4" | "m = 5" | "m = 6" | "m = 7"
    | "m = 8" | "m = 9" | "m = 10" | "m = 11"
    using month_cases[OF assms(1,2)] by blast
  then show ?thesis
  proof cases
    case 1 then show ?thesis using assms(3-5) by (auto simp: monthStart_def DaysInMonth_def)
  next
    case 2 then show ?thesis using assms(3-5) by (auto simp: monthStart_def DaysInMonth_def)
  next
    case 3 then show ?thesis using assms(3-5) by (auto simp: monthStart_def DaysInMonth_def)
  next
    case 4 then show ?thesis using assms(3-5) by (auto simp: monthStart_def DaysInMonth_def)
  next
    case 5 then show ?thesis using assms(3-5) by (auto simp: monthStart_def DaysInMonth_def)
  next
    case 6 then show ?thesis using assms(3-5) by (auto simp: monthStart_def DaysInMonth_def)
  next
    case 7 then show ?thesis using assms(3-5) by (auto simp: monthStart_def DaysInMonth_def)
  next
    case 8 then show ?thesis using assms(3-5) by (auto simp: monthStart_def DaysInMonth_def)
  next
    case 9 then show ?thesis using assms(3-5) by (auto simp: monthStart_def DaysInMonth_def)
  next
    case 10 then show ?thesis using assms(3-5) by (auto simp: monthStart_def DaysInMonth_def)
  next
    case 11 then show ?thesis using assms(3-5) by (auto simp: monthStart_def DaysInMonth_def)
  next
    case 12 then show ?thesis using assms(3-5) by (auto simp: monthStart_def DaysInMonth_def)
  qed
qed

text \<open>A day given by year, month and day of the month is read back as such.\<close>

lemma civil_roundtrip:
  assumes m: "0 \<le> m" "m \<le> 11" and dt: "1 \<le> dt" "dt \<le> DaysInMonth m (leapDay y)"
    and d: "Day t = DayFromYear y + monthStart m (leapDay y) + dt - 1"
  shows "YearFromTime t = y \<and> MonthFromTime t = m \<and> DateFromTime t = dt"
proof -
  have b: "0 \<le> monthStart m (leapDay y) + dt - 1"
          "monthStart m (leapDay y) + dt - 1 < 365 + leapDay y"
    using monthStart_bounds[OF m leapDay_cases dt] by simp_all
  have y: "YearFromTime t = y"
    by (rule YearFromTime_eq) (use b d DayFromYear_Suc[of y] DaysInYear_leapDay[of y] in linarith)+
  have w: "DayWithinYear t = monthStart m (leapDay y) + dt - 1"
    using d y by (simp add: DayWithinYear_def)
  have l: "InLeapYear t = leapDay y" using y by (simp add: InLeapYear_def)
  have mf: "MonthFromTime t = m"
    unfolding MonthFromTime_def w l by (rule month_table[OF m leapDay_cases dt])
  have "DateFromTime t = dt"
    unfolding DateFromTime_def mf w l by simp
  with y mf show ?thesis by simp
qed

lemma MakeDay_month:
  assumes "0 \<le> m" "m \<le> 11"
  shows "MakeDay y m dt = DayFromYear y + monthStart m (leapDay y) + dt - 1"
proof -
  have "m div 12 = 0" "m mod 12 = m" using assms by simp_all
  then show ?thesis by (simp add: MakeDay_def)
qed

lemma MakeDay_last_day:
  assumes "0 \<le> m" "m \<le> 11"
  shows "MakeDay y (m + 1) 0
         = DayFromYear y + monthStart m (leapDay y) + DaysInMonth m (leapDay y) - 1"
proof (cases "m = 11")
  case True
  have "MakeDay y 12 0 = DayFromYear (y + 1) - 1"
    by (simp add: MakeDay_def monthStart_def)
  then show ?thesis
    using True DayFromYear_Suc[of y] DaysInYear_leapDay[of y]
    by (simp add: monthStart_def DaysInMonth_def)
next
  case False
  then have "0 \<le> m + 1" "m + 1 \<le> 11" using assms by simp_all
  then have "MakeDay y (m + 1) 0 = DayFromYear y + monthStart (m + 1) (leapDay y) + 0 - 1"
    by (rule MakeDay_month)
  moreover have "monthStart (m + 1) (leapDay y) = monthStart m (leapDay y) + DaysInMonth m (leapDay y)"
    using month_cases[OF assms] False unfolding monthStart_def DaysInMonth_def by auto
  ultimately show ?thesis by simp
qed

lemma MakeDay_before_first:
  "MakeDay y (- 1) dt = DayFromYear y - 31 + dt - 1"
proof -
  have "(- 1 :: int) div 12 = - 1" "(- 1 :: int) mod 12 = 11" by simp_all
  then have "MakeDay y (- 1) dt = DayFromYear (y - 1) + monthStart 11 (leapDay (y - 1)) + dt - 1"
    by (simp add: MakeDay_def Let_def)
  then show ?thesis
    using DayFromYear_Suc[of "y - 1"] DaysInYear_leapDay[of "y - 1"]
    by (simp add: monthStart_def)
qed

lemma Day_MakeDate:
  assumes "0 \<le> tm" "tm < msPerDay"
  shows "Day (MakeDate d tm) = d"
proof -
  have "(d * msPerDay + tm) div msPerDay = d"
    using assms by (simp add: msPerDay_def)
  then show ?thesis by (simp add: Day_def MakeDate_def)
qed

lemma Day_MakeDate_0: "Day (MakeDate d 0) = d"
  by (rule Day_MakeDate) (simp_all add: msPerDay_def)

lemma TimeWithinDay_range: "0 \<le> TimeWithinDay t \<and> TimeWithinDay t < msPerDay"
  by (simp add: TimeWithinDay_def msPerDay_def)

lemma time_of_Day: "Day t * msPerDay \<le> t \<and> t < Day t * msPerDay + msPerDay"
proof -
  have "t div msPerDay * msPerDay + t mod msPerDay = t" by (rule div_mult_mod_eq)
  moreover have "0 \<le> t mod msPerDay" "t mod msPerDay < msPerDay"
    by (simp_all add: msPerDay_def)
  ultimately show ?thesis unfolding Day_def by linarith
qed

lemma DaysInMonth_range: "l = 0 \<or> l = 1 \<Longrightarrow> 28 \<le> DaysInMonth m l \<and> DaysInMonth m l \<le> 31"
  by (auto simp: DaysInMonth_def)

lemma monthStart_range: "0 \<le> m \<Longrightarrow> m \<le> 11 \<Longrightarrow> l = 0 \<or> l = 1 \<Longrightarrow> 0 \<le> monthStart m l \<and> monthStart m l \<le> 335"
  by (auto simp: monthStart_def)

lemma DaysInMonth_leapDay: "28 \<le> DaysInMonth m (leapDay y) \<and> DaysInMonth m (leapDay y) \<le> 31"
  by (rule DaysInMonth_range) (rule leapDay_cases)

lemma monthStart_leapDay:
  "0 \<le> m \<Longrightarrow> m \<le> 11 \<Longrightarrow> 0 \<le> monthStart m (leapDay y) \<and> monthStart m (leapDay y) \<le> 335"
  by (rule monthStart_range) (simp_all add: leapDay_cases)

lemma DateFromTime_31: "1 \<le> DateFromTime t \<and> DateFromTime t \<le> 31"
proof -
  have "InLeapYear t = 0 \<or> InLeapYear t = 1"
    using leapDay_cases by (simp add: InLeapYear_def)
  then show ?thesis
    using DateFromTime_range[of t] DaysInMonth_range[of "InLeapYear t" "MonthFromTime t"]
    by linarith
qed

text \<open>The last day of the month of a date, as \<open>getDaysInMonth\<close> computes it.\<close>

lemma last_day_fields:
  assumes m: "0 \<le> m" "m \<le> 11"
  shows "DateFromTime (MakeDate (MakeDay y (m + 1) 0) 0) = DaysInMonth m (leapDay y)"
proof -
  have d: "Day (MakeDate (MakeDay y (m + 1) 0) 0)
      = DayFromYear y + monthStart m (leapDay y) + DaysInMonth m (leapDay y) - 1"
    by (simp add: Day_MakeDate_0 MakeDay_last_day[OF m])
  have r: "1 \<le> DaysInMonth m (leapDay y)"
    using DaysInMonth_leapDay[of m y] by simp
  show ?thesis
    using civil_roundtrip[OF m r _ d] by simp
qed

lemma last_day_near:
  assumes "0 \<le> m" "m \<le> 11"
  shows "DayFromYear y \<le> MakeDay y (m + 1) 0 \<and> MakeDay y (m + 1) 0 \<le> DayFromYear y + 366"
  using MakeDay_last_day[OF assms, of y] monthStart_leapDay[OF assms, of y]
    DaysInMonth_leapDay[of m y]
  by linarith

lemma DayFromYear_1900: "DayFromYear 1900 = - 25567"
  by (simp add: DayFromYear_def)

lemma DayFromYear_2000: "DayFromYear 2000 = 10957"
  by (simp add: DayFromYear_def)

lemma DayFromYear_century:
  assumes "0 \<le> y" "y \<le> 99"
  shows "- 25567 \<le> DayFromYear (1900 + y) \<and> DayFromYear (1900 + y) \<le> 10957"
proof -
  have "DayFromYear 1900 + 365 * (1900 + y - 1900) \<le> DayFromYear (1900 + y)"
    by (rule DayFromYear_mono) (use assms in simp)
  moreover have "DayFromYear (1900 + y) + 365 * (2000 - (1900 + y)) \<le> DayFromYear 2000"
    by (rule DayFromYear_mono) (use assms in simp)
  ultimately show ?thesis using assms by (simp add: DayFromYear_1900 DayFromYear_2000)
qed

lemma getDaysInMonth_value:
  assumes "abs t \<le> 8610000000000000"
  shows "getDaysInMonth (Date t)
         = Some (DaysInMonth (MonthFromTime t) (leapDay (MakeFullYear (YearFromTime t))))"
proof -
  let ?y = "MakeFullYear (YearFromTime t)"
  let ?m = "MonthFromTime t"
  let ?d = "MakeDay ?y (?m + 1) 0"
  have m: "0 \<le> ?m" "?m \<le> 11" using MonthFromTime_range[of t] by simp_all
  have near: "DayFromYear ?y \<le> ?d" "?d \<le> DayFromYear ?y + 366"
    using last_day_near[OF m, of ?y] by simp_all
  have range: "- 99999000 \<le> ?d \<and> ?d \<le> 99999000"
  proof (cases "0 \<le> YearFromTime t \<and> YearFromTime t \<le> 99")
    case True
    then have "- 25567 \<le> DayFromYear ?y \<and> DayFromYear ?y \<le> 10957"
      using DayFromYear_century[of "YearFromTime t"] by (simp add: MakeFullYear_def)
    then show ?thesis using near by linarith
  next
    case False
    then have y: "?y = YearFromTime t" by (auto simp: MakeFullYear_def)
    have b: "DayFromYear ?y \<le> Day t" "Day t < DayFromYear ?y + 366"
      using YearFromTime_bounds[of t] DayFromYear_step_le[of "YearFromTime t"] y by simp_all
    have "Day t * 86400000 \<le> t" "t < Day t * 86400000 + 86400000"
      using time_of_Day[of t] by (simp_all add: msPerDay_def)
    then have "- 99660000 \<le> Day t" "Day t \<le> 99660000" using assms by linarith+
    then show ?thesis using near b by linarith
  qed
  then have "abs (MakeDate ?d 0) \<le> maxTime"
    unfolding MakeDate_def msPerDay_def maxTime_def by linarith
  then have "newDate3 (Some (YearFromTime t)) (Some (?m + 1)) (Some 0) = Date (MakeDate ?d 0)"
    by (simp add: newDate3_def TimeClip_def)
  then show ?thesis
    by (simp add: getDaysInMonth_def getFullYear_def getMonth_def numPlus_def getDate_def
        last_day_fields[OF m])
qed

lemma getDaysInMonth_range:
  assumes "abs t \<le> 8610000000000000"
  shows "\<exists>n. getDaysInMonth (Date t) = Some n \<and> 28 \<le> n \<and> n \<le> 31"
  using getDaysInMonth_value[OF assms] DaysInMonth_leapDay
  by simp

lemma setMonth_previous:
  assumes n: "abs n \<le> 8600000000000000" and m: "0 \<le> m" "m \<le> 11"
  shows "\<exists>p. setMonth (Date n) (Some (m - 1)) = Date p \<and> abs p \<le> 8610000000000000"
proof -
  let ?Y = "YearFromTime n"
  let ?D = "DateFromTime n"
  let ?d = "MakeDay ?Y (m - 1) ?D"
  let ?p = "MakeDate ?d (TimeWithinDay n)"
  have D: "1 \<le> ?D" "?D \<le> 31" using DateFromTime_31[of n] by simp_all
  have d: "DayFromYear ?Y - 31 \<le> ?d \<and> ?d \<le> DayFromYear ?Y + 365"
  proof (cases "m = 0")
    case True
    then show ?thesis using MakeDay_before_first[of ?Y ?D] D by simp
  next
    case False
    then have m1: "0 \<le> m - 1" "m - 1 \<le> 11" using m by simp_all
    show ?thesis
      using MakeDay_month[OF m1, of ?Y ?D] monthStart_leapDay[OF m1, of ?Y] D by linarith
  qed
  have y: "DayFromYear ?Y \<le> Day n" "Day n < DayFromYear ?Y + 366"
    using YearFromTime_bounds[of n] DayFromYear_step_le[of ?Y] by simp_all
  have t: "Day n * 86400000 \<le> n" "n < Day n * 86400000 + 86400000"
    using time_of_Day[of n] by (simp_all add: msPerDay_def)
  have w: "0 \<le> TimeWithinDay n" "TimeWithinDay n < 86400000"
    using TimeWithinDay_range[of n] by (simp_all add: msPerDay_def)
  have p: "?p = ?d * 86400000 + TimeWithinDay n"
    by (simp add: MakeDate_def msPerDay_def)
  have b: "abs ?p \<le> 8610000000000000"
    using d y t w n unfolding p by linarith
  then have "abs ?p \<le> maxTime" by (simp add: maxTime_def)
  then have "setMonth (Date n) (Some (m - 1)) = Date ?p"
    by (simp add: setMonth_def TimeClip_def)
  with b show ?thesis by blast
qed

lemma previous_month_days:
  assumes "abs n \<le> 8600000000000000" "0 \<le> m" "m \<le> 11"
  shows "\<exists>k. getDaysInMonth (setMonth (Date n) (Some (m - 1))) = Some k \<and> 28 \<le> k \<and> k \<le> 31"
proof -
  obtain p where p: "setMonth (Date n) (Some (m - 1)) = Date p" "abs p \<le> 8610000000000000"
    using setMonth_previous[OF assms] by blast
  show ?thesis unfolding p(1) by (rule getDaysInMonth_range[OF p(2)])
qed

lemma index_range:
  "0 \<le> index (getFirstWeekDayInMonth d) \<and> index (getFirstWeekDayInMonth d) \<le> 6"
  by (simp add: getFirstWeekDayInMonth_def index_def Let_def)

lemma monthLoop_append:
  "monthLoop type aDate is c = c @ map (monthCell type aDate) is"
  by (induction "is" arbitrary: c) (simp_all add: monthCell_def Let_def)

lemma previousLoop_append:
  "\<forall>i\<in>set is. i < length remainder \<Longrightarrow>
     previousLoop remainder previousMonth is c = Inr (c @ map (previousCell remainder previousMonth) is)"
  by (induction "is" arbitrary: c) (simp_all add: previousCell_def Let_def)

lemma classList_createDayDiv:
  "classList (createDayDiv ''previous'' x) = [''monthView_day'', ''previous'']"
  "classList (createDayDiv ''current'' x) = [''monthView_day'', ''current'']"
  "classList (createDayDiv ''next'' x) = [''monthView_day'', ''next'']"
  by (simp_all add: createDayDiv_def classListAdd_def)

lemma classList_cells:
  "classList (previousCell r p i) = [''monthView_day'', ''previous'']"
  "classList (monthCell ''current'' d i) = [''monthView_day'', ''current'']"
  "classList (monthCell ''next'' d i) = [''monthView_day'', ''next'']"
  by (simp_all add: previousCell_def monthCell_def classList_createDayDiv)

text \<open>
  The cells before the mark: as many cells of the previous month as the index of the first
  week day, the cells of the current month, and the cells that fill the grid.
\<close>

lemma grid_cells:
  assumes n: "abs n \<le> 8600000000000000"
  shows "\<exists>prev. length prev = nat (index (getFirstWeekDayInMonth (Date t))) \<and> untagged prev
     \<and> createCalendarGrid (Date n) daysInCurrentMonth nextMonth (Date t) c gridItemAmount
       = addToday (Some (DateFromTime t + index (getFirstWeekDayInMonth (Date t)) - 1))
           (c @ prev @ map (monthCell ''current'' (Date t)) [0..<nat daysInCurrentMonth]
              @ map (monthCell ''next'' nextMonth)
                  [0..<nat (gridItemAmount
                            - int (length c + nat (index (getFirstWeekDayInMonth (Date t)))
                                   + nat daysInCurrentMonth))])"
proof -
  let ?idx = "index (getFirstWeekDayInMonth (Date t))"
  let ?pm = "setMonth (Date n) (Some (MonthFromTime t - 1))"
  have m: "0 \<le> MonthFromTime t" "MonthFromTime t \<le> 11"
    using MonthFromTime_range[of t] by simp_all
  obtain k where k: "getDaysInMonth ?pm = Some k" "28 \<le> k" "k \<le> 31"
    using previous_month_days[OF n m] by blast
  have idx: "0 \<le> ?idx" "?idx \<le> 6" using index_range[of "Date t"] by simp_all
  let ?rem = "drop (nat (max (int (length [1..k]) - ?idx) 0)) [1..k]"
  have len: "length ?rem = nat ?idx" using k idx by simp
  let ?prev = "map (previousCell ?rem ?pm) [0..<nat ?idx]"
  have pl: "previousLoop ?rem ?pm [0..<nat ?idx] c = Inr (c @ ?prev)"
  proof (rule previousLoop_append)
    show "\<forall>i\<in>set [0..<nat ?idx]. i < length ?rem" unfolding len by simp
  qed
  have g: "setMonth (Date n) (numPlus (getMonth (Date t)) (- 1)) = ?pm"
    by (simp add: getMonth_def numPlus_def)
  have r0: "(case getDaysInMonth ?pm of None \<Rightarrow> [] | Some n \<Rightarrow> [1..n]) = [1..k]"
    by (simp add: k)
  have td: "numPlus (numPlus (getDate (Date t)) ?idx) (- 1) = Some (DateFromTime t + ?idx - 1)"
    by (simp add: getDate_def numPlus_def)
  have u: "untagged ?prev"
    by (simp add: untagged_def list_all_iff classList_cells)
  have "createCalendarGrid (Date n) daysInCurrentMonth nextMonth (Date t) c gridItemAmount
       = addToday (Some (DateFromTime t + ?idx - 1))
           (c @ ?prev @ map (monthCell ''current'' (Date t)) [0..<nat daysInCurrentMonth]
              @ map (monthCell ''next'' nextMonth)
                  [0..<nat (gridItemAmount - int (length c + nat ?idx + nat daysInCurrentMonth))])"
    unfolding createCalendarGrid_def Let_def g r0 pl td sum.case monthLoop_append
    by (simp add: add.assoc)
  moreover have "length ?prev = nat ?idx" by simp
  ultimately show ?thesis using u by blast
qed

lemma untagged_append: "untagged (a @ b) = (untagged a \<and> untagged b)"
  by (simp add: untagged_def)

lemma untagged_month:
  "untagged (map (monthCell ''current'' d) is)" "untagged (map (monthCell ''next'' d) is)"
  by (simp_all add: untagged_def list_all_iff classList_cells)

lemma addToday_mark:
  assumes "untagged cells" "0 \<le> k" "k < int (length cells)"
  shows "\<exists>cells'. addToday (Some k) cells = Inr cells' \<and> length cells' = length cells
     \<and> (\<forall>i<length cells'. (''today'' \<in> set (classList (cells' ! i))) = (int i = k))
     \<and> dataset_date (cells' ! nat k) = dataset_date (cells ! nat k)"
proof -
  let ?c = "cells[nat k := (cells ! nat k)\<lparr>classList := classListAdd ''today'' (classList (cells ! nat k))\<rparr>]"
  have a: "addToday (Some k) cells = Inr ?c" using assms(2,3) by (simp add: addToday_def)
  have k: "nat k < length cells" using assms(2,3) by simp
  have u: "\<And>i. i < length cells \<Longrightarrow> ''today'' \<notin> set (classList (cells ! i))"
    using assms(1) by (simp add: untagged_def list_all_length)
  have t: "''today'' \<in> set (classListAdd ''today'' cs)" for cs
    by (simp add: classListAdd_def)
  have "\<forall>i<length ?c. (''today'' \<in> set (classList (?c ! i))) = (int i = k)"
  proof (intro allI impI)
    fix i assume "i < length ?c"
    then have i: "i < length cells" by simp
    show "(''today'' \<in> set (classList (?c ! i))) = (int i = k)"
    proof (cases "i = nat k")
      case True
      then show ?thesis using k assms(2) t by simp
    next
      case False
      then have "int i \<noteq> k" using assms(2) by auto
      then show ?thesis using False i u by simp
    qed
  qed
  moreover have "dataset_date (?c ! nat k) = dataset_date (cells ! nat k)" using k by simp
  ultimately show ?thesis using a by simp
qed

lemma grid_result:
  assumes n: "abs n \<le> 8600000000000000"
    and d: "daysInCurrentMonth = DaysInMonth (MonthFromTime t) (InLeapYear t)"
  shows "\<exists>cells. createCalendarGrid (Date n) daysInCurrentMonth nextMonth (Date t) [] gridItemAmount
        = Inr cells
     \<and> int (length cells) = max gridItemAmount
          (index (getFirstWeekDayInMonth (Date t)) + daysInCurrentMonth)
     \<and> (\<forall>i<length cells. (''today'' \<in> set (classList (cells ! i)))
            = (int i = (DateFromTime t - 1) + index (getFirstWeekDayInMonth (Date t))))
     \<and> dataset_date (cells ! nat ((DateFromTime t - 1) + index (getFirstWeekDayInMonth (Date t))))
        = Some (getDateString (getDate (Date t)) (numPlus (getMonth (Date t)) 1)
                  (getFullYear (Date t)))"
proof -
  let ?idx = "index (getFirstWeekDayInMonth (Date t))"
  let ?D = "DateFromTime t"
  let ?cur = "map (monthCell ''current'' (Date t)) [0..<nat daysInCurrentMonth]"
  let ?next = "map (monthCell ''next'' nextMonth)
                  [0..<nat (gridItemAmount - int (length ([]::DayDiv list) + nat ?idx + nat daysInCurrentMonth))]"
  obtain prev where prev: "length prev = nat ?idx" "untagged prev"
    and g: "createCalendarGrid (Date n) daysInCurrentMonth nextMonth (Date t) [] gridItemAmount
       = addToday (Some (?D + ?idx - 1)) ([] @ prev @ ?cur @ ?next)"
    using grid_cells[OF n, of t daysInCurrentMonth nextMonth "[]" gridItemAmount] by blast
  let ?base = "[] @ prev @ ?cur @ ?next"
  have idx: "0 \<le> ?idx" "?idx \<le> 6" using index_range[of "Date t"] by simp_all
  have D: "1 \<le> ?D" "?D \<le> daysInCurrentMonth" using DateFromTime_range[of t] d by simp_all
  have len: "int (length ?base) = max gridItemAmount (?idx + daysInCurrentMonth)"
    using prev(1) idx D by simp
  have u: "untagged ?base" using prev(2) by (simp add: untagged_append untagged_month)
  have k: "0 \<le> ?D + ?idx - 1" "?D + ?idx - 1 < int (length ?base)"
    using idx D len by simp_all
  obtain cells where c: "addToday (Some (?D + ?idx - 1)) ?base = Inr cells"
      "length cells = length ?base"
      "\<forall>i<length cells. (''today'' \<in> set (classList (cells ! i))) = (int i = ?D + ?idx - 1)"
      "dataset_date (cells ! nat (?D + ?idx - 1)) = dataset_date (?base ! nat (?D + ?idx - 1))"
    using addToday_mark[OF u k] by blast
  have pos: "nat (?D + ?idx - 1) = length prev + nat (?D - 1)"
    using prev(1) idx D by simp
  have "?base ! nat (?D + ?idx - 1) = ?cur ! nat (?D - 1)"
    unfolding pos using D by (simp add: nth_append)
  also have "\<dots> = monthCell ''current'' (Date t) (nat (?D - 1))"
    using D by simp
  finally have "dataset_date (?base ! nat (?D + ?idx - 1))
      = Some (getDateString (getDate (Date t)) (numPlus (getMonth (Date t)) 1) (getFullYear (Date t)))"
    using D by (simp add: monthCell_def getDate_def)
  then show ?thesis
    using g c len by (simp add: algebra_simps)
qed

section \<open>Properties of the grid builder\<close>

text \<open>
  The dates of the examples: 15 May 2024, 15 June 2024, 29 February 2024 at 9:00,
  31 March 2024 at 12:00 and 2 March 2024 at 12:00.
\<close>

lemma fields_2024_05_15:
  "YearFromTime 1715731200000 = 2024" "MonthFromTime 1715731200000 = 4"
  "DateFromTime 1715731200000 = 15" "InLeapYear 1715731200000 = 1"
proof -
  show y: "YearFromTime 1715731200000 = 2024"
    by (simp add: YearFromTime_def Day_def msPerDay_def yearSearch.simps DayFromYear_def)
  show l: "InLeapYear 1715731200000 = 1"
    by (simp add: InLeapYear_def y leapDay_def DaysInYear_def)
  have w: "DayWithinYear 1715731200000 = 135"
    by (simp add: DayWithinYear_def y Day_def msPerDay_def DayFromYear_def)
  show m: "MonthFromTime 1715731200000 = 4"
    by (simp add: MonthFromTime_def w l)
  show "DateFromTime 1715731200000 = 15"
    by (simp add: DateFromTime_def w l m monthStart_def)
qed

lemma first_weekday_2024_05: "getFirstWeekDayInMonth (Date 1715731200000) = Weekday_index ''Wednesday'' 2"
  by (simp add: getFirstWeekDayInMonth_def getMonth_def getFullYear_def fields_2024_05_15
      newDate3_def MakeFullYear_def MakeDay_def MakeDate_def TimeClip_def maxTime_def msPerDay_def
      DayFromYear_def monthStart_def leapDay_def DaysInYear_def toStringFirstWord_def WeekDay_def
      Day_def)

lemma fields_2024_06_15:
  "YearFromTime 1718409600000 = 2024" "MonthFromTime 1718409600000 = 5"
  "DateFromTime 1718409600000 = 15" "InLeapYear 1718409600000 = 1"
proof -
  show y: "YearFromTime 1718409600000 = 2024"
    by (simp add: YearFromTime_def Day_def msPerDay_def yearSearch.simps DayFromYear_def)
  show l: "InLeapYear 1718409600000 = 1"
    by (simp add: InLeapYear_def y leapDay_def DaysInYear_def)
  have w: "DayWithinYear 1718409600000 = 166"
    by (simp add: DayWithinYear_def y Day_def msPerDay_def DayFromYear_def)
  show m: "MonthFromTime 1718409600000 = 5"
    by (simp add: MonthFromTime_def w l)
  show "DateFromTime 1718409600000 = 15"
    by (simp add: DateFromTime_def w l m monthStart_def)
qed

lemma first_weekday_2024_06: "getFirstWeekDayInMonth (Date 1718409600000) = Weekday_index ''Saturday'' 5"
  by (simp add: getFirstWeekDayInMonth_def getMonth_def getFullYear_def fields_2024_06_15
      newDate3_def MakeFullYear_def MakeDay_def MakeDate_def TimeClip_def maxTime_def msPerDay_def
      DayFromYear_def monthStart_def leapDay_def DaysInYear_def toStringFirstWord_def WeekDay_def
      Day_def)

lemma fields_2024_02_29:
  "YearFromTime 1709197200000 = 2024" "MonthFromTime 1709197200000 = 1"
  "DateFromTime 1709197200000 = 29" "InLeapYear 1709197200000 = 1"
proof -
  show y: "YearFromTime 1709197200000 = 2024"
    by (simp add: YearFromTime_def Day_def msPerDay_def yearSearch.simps DayFromYear_def)
  show l: "InLeapYear 1709197200000 = 1"
    by (simp add: InLeapYear_def y leapDay_def DaysInYear_def)
  have w: "DayWithinYear 1709197200000 = 59"
    by (simp add: DayWithinYear_def y Day_def msPerDay_def DayFromYear_def)
  show m: "MonthFromTime 1709197200000 = 1"
    by (simp add: MonthFromTime_def w l)
  show "DateFromTime 1709197200000 = 29"
    by (simp add: DateFromTime_def w l m monthStart_def)
qed

lemma first_weekday_2024_02: "getFirstWeekDayInMonth (Date 1709197200000) = Weekday_index ''Thursday'' 3"
  by (simp add: getFirstWeekDayInMonth_def getMonth_def getFullYear_def fields_2024_02_29
      newDate3_def MakeFullYear_def MakeDay_def MakeDate_def TimeClip_def maxTime_def msPerDay_def
      DayFromYear_def monthStart_def leapDay_def DaysInYear_def toStringFirstWord_def WeekDay_def
      Day_def)

lemma getDateString_2024_02_29: "getDateString (Some 29) (Some 2) (Some 2024) = ''29-02-2024''"
  by (simp add: getDateString_def numberToString_def numToString_def natToString.simps digitChar_def)

lemma fields_2024_03_31:
  "YearFromTime 1711886400000 = 2024" "MonthFromTime 1711886400000 = 2"
  "DateFromTime 1711886400000 = 31" "InLeapYear 1711886400000 = 1"
  "TimeWithinDay 1711886400000 = 43200000"
proof -
  show y: "YearFromTime 1711886400000 = 2024"
    by (simp add: YearFromTime_def Day_def msPerDay_def yearSearch.simps DayFromYear_def)
  show l: "InLeapYear 1711886400000 = 1"
    by (simp add: InLeapYear_def y leapDay_def DaysInYear_def)
  have w: "DayWithinYear 1711886400000 = 90"
    by (simp add: DayWithinYear_def y Day_def msPerDay_def DayFromYear_def)
  show m: "MonthFromTime 1711886400000 = 2"
    by (simp add: MonthFromTime_def w l)
  show "DateFromTime 1711886400000 = 31"
    by (simp add: DateFromTime_def w l m monthStart_def)
  show "TimeWithinDay 1711886400000 = 43200000"
    by (simp add: TimeWithinDay_def msPerDay_def)
qed

lemma fields_2024_03_02:
  "YearFromTime 1709380800000 = 2024" "MonthFromTime 1709380800000 = 2"
proof -
  show y: "YearFromTime 1709380800000 = 2024"
    by (simp add: YearFromTime_def Day_def msPerDay_def yearSearch.simps DayFromYear_def)
  have l: "InLeapYear 1709380800000 = 1"
    by (simp add: InLeapYear_def y leapDay_def DaysInYear_def)
  have w: "DayWithinYear 1709380800000 = 61"
    by (simp add: DayWithinYear_def y Day_def msPerDay_def DayFromYear_def)
  show m: "MonthFromTime 1709380800000 = 2"
    by (simp add: MonthFromTime_def w l)
qed

lemma setMonth_2024_03_31: "setMonth (Date 1711886400000) (Some 1) = Date 1709380800000"
  by (simp add: setMonth_def fields_2024_03_31 MakeDay_def MakeDate_def TimeClip_def maxTime_def
      msPerDay_def DayFromYear_def monthStart_def leapDay_def DaysInYear_def)

lemma getDaysInMonth_2024_03_02: "getDaysInMonth (Date 1709380800000) = Some 31"
  using getDaysInMonth_value[of 1709380800000]
  by (simp add: fields_2024_03_02 MakeFullYear_def DaysInMonth_def)

lemma first_weekday_2024_03: "getFirstWeekDayInMonth (Date 1711886400000) = Weekday_index ''Friday'' 4"
  by (simp add: getFirstWeekDayInMonth_def getMonth_def getFullYear_def fields_2024_03_31
      newDate3_def MakeFullYear_def MakeDay_def MakeDate_def TimeClip_def maxTime_def msPerDay_def
      DayFromYear_def monthStart_def leapDay_def DaysInYear_def toStringFirstWord_def WeekDay_def
      Day_def)

lemma previous_cells_2024_03_31:
  "previousLoop [28, 29, 30, 31] (Date 1709380800000) [0..<4] []
   = Inr [\<lparr>classList = [''monthView_day'', ''previous''], day_date_number = ''28'',
            dataset_date = Some ''28-03-2024''\<rparr>,
          \<lparr>classList = [''monthView_day'', ''previous''], day_date_number = ''29'',
            dataset_date = Some ''29-03-2024''\<rparr>,
          \<lparr>classList = [''monthView_day'', ''previous''], day_date_number = ''30'',
            dataset_date = Some ''30-03-2024''\<rparr>,
          \<lparr>classList = [''monthView_day'', ''previous''], day_date_number = ''31'',
            dataset_date = Some ''31-03-2024''\<rparr>]"
proof -
  have u: "[0..<4] = [0, 1, 2, 3::nat]" by code_simp
  have s: "numberToString (Some 28) = ''28''" "numberToString (Some 29) = ''29''"
    "numberToString (Some 30) = ''30''" "numberToString (Some 31) = ''31''"
    "numberToString (Some 3) = ''3''" "numberToString (Some 2024) = ''2024''"
    by (simp_all add: numberToString_def numToString_def natToString.simps digitChar_def)
  show ?thesis
    unfolding u
    by (simp add: getMonth_def getFullYear_def numPlus_def fields_2024_03_02 getDateString_def s
        createDayDiv_def classListAdd_def)
qed

text \<open>
  The hypotheses of the two theorems on the grid are on what \<open>createCalendarGrid\<close> reads
  besides its parameters: the clock is more than a year inside the range of \<open>Date\<close>, and
  the global \<open>daysInCurrentMonth\<close> is the number of days of the month of the reference
  date, the days the cells of the current month stand for.
\<close>

text \<open>
  Claim C7: for every reference date, when the grid is built into an empty container with
  the number of cells that \<open>initCalendar\<close> chooses (42 if the index of the first week day
  of the month is at least 5, else 35), the grid has exactly that number of cells.
\<close>

theorem initCalendar_length:
  assumes "abs n \<le> 8600000000000000"
    and "daysInCurrentMonth = DaysInMonth (MonthFromTime t) (InLeapYear t)"
  shows "\<exists>cells. initCalendar (Date n) daysInCurrentMonth nextMonth (Date t) [] = Inr cells
     \<and> int (length cells) = (if index (getFirstWeekDayInMonth (Date t)) \<ge> 5 then 42 else 35)"
proof -
  let ?idx = "index (getFirstWeekDayInMonth (Date t))"
  let ?cap = "if ?idx \<ge> 5 then 42 else (35::int)"
  obtain cells where c:
      "createCalendarGrid (Date n) daysInCurrentMonth nextMonth (Date t) [] ?cap = Inr cells"
      "int (length cells) = max ?cap (?idx + daysInCurrentMonth)"
    using grid_result[OF assms, of nextMonth ?cap] by blast
  have "InLeapYear t = 0 \<or> InLeapYear t = 1"
    using leapDay_cases by (simp add: InLeapYear_def)
  then have "daysInCurrentMonth \<le> 31"
    using DaysInMonth_range[of "InLeapYear t" "MonthFromTime t"] assms(2) by simp
  moreover have "?idx \<le> 6" using index_range[of "Date t"] by simp
  ultimately have "max ?cap (?idx + daysInCurrentMonth) = ?cap" by auto
  then show ?thesis using c by (simp add: initCalendar_def Let_def)
qed

theorem initCalendar_length_witness:
  "(\<exists>cells. initCalendar (Date 1711886400000) 31 (Date 1717200000000) (Date 1715731200000) []
       = Inr cells \<and> int (length cells) = 35)
   \<and> (\<exists>cells. initCalendar (Date 1711886400000) 30 (Date 1719792000000) (Date 1718409600000) []
       = Inr cells \<and> int (length cells) = 42)"
  using initCalendar_length[of 1711886400000 31 1715731200000 "Date 1717200000000"]
    initCalendar_length[of 1711886400000 30 1718409600000 "Date 1719792000000"]
  by (simp add: fields_2024_05_15 fields_2024_06_15 DaysInMonth_def first_weekday_2024_05
      first_weekday_2024_06 index_def)

text \<open>
  Claim C6: for every reference date and every grid built into an empty container, exactly
  one cell is marked \<open>today\<close>: the cell at position (day of the month - 1) + index of the
  first week day, and the date key of that cell is the date key of the reference date.
\<close>

theorem createCalendarGrid_today:
  assumes "abs n \<le> 8600000000000000"
    and "daysInCurrentMonth = DaysInMonth (MonthFromTime t) (InLeapYear t)"
  shows "\<exists>cells. createCalendarGrid (Date n) daysInCurrentMonth nextMonth (Date t) [] gridItemAmount
        = Inr cells
     \<and> (DateFromTime t - 1) + index (getFirstWeekDayInMonth (Date t)) < int (length cells)
     \<and> (\<forall>i<length cells. (''today'' \<in> set (classList (cells ! i)))
            = (int i = (DateFromTime t - 1) + index (getFirstWeekDayInMonth (Date t))))
     \<and> dataset_date (cells ! nat ((DateFromTime t - 1) + index (getFirstWeekDayInMonth (Date t))))
        = Some (getDateString (getDate (Date t)) (numPlus (getMonth (Date t)) 1)
                  (getFullYear (Date t)))"
proof -
  let ?idx = "index (getFirstWeekDayInMonth (Date t))"
  obtain cells where c:
      "createCalendarGrid (Date n) daysInCurrentMonth nextMonth (Date t) [] gridItemAmount = Inr cells"
      "int (length cells) = max gridItemAmount (?idx + daysInCurrentMonth)"
      "\<forall>i<length cells. (''today'' \<in> set (classList (cells ! i)))
            = (int i = (DateFromTime t - 1) + ?idx)"
      "dataset_date (cells ! nat ((DateFromTime t - 1) + ?idx))
        = Some (getDateString (getDate (Date t)) (numPlus (getMonth (Date t)) 1)
                  (getFullYear (Date t)))"
    using grid_result[OF assms, of nextMonth gridItemAmount] by blast
  have "DateFromTime t \<le> daysInCurrentMonth"
    using DateFromTime_range[of t] assms(2) by simp
  then have "(DateFromTime t - 1) + ?idx < int (length cells)"
    using c(2) by simp
  then show ?thesis using c by blast
qed

theorem createCalendarGrid_today_witness:
  "\<exists>cells. createCalendarGrid (Date 1711886400000) 29 (Date 1709251200000) (Date 1709197200000) [] 35
        = Inr cells
     \<and> 31 < int (length cells)
     \<and> (\<forall>i<length cells. (''today'' \<in> set (classList (cells ! i))) = (int i = 31))
     \<and> dataset_date (cells ! 31) = Some ''29-02-2024''"
  using createCalendarGrid_today[of 1711886400000 29 1709197200000 "Date 1709251200000" 35]
  by (simp add: fields_2024_02_29 DaysInMonth_def first_weekday_2024_02 index_def
      getDate_def getMonth_def getFullYear_def numPlus_def getDateString_2024_02_29)

text \<open>
  Claim C1: for every reference date and grid capacity the leading cells are the last days
  of the month before the month of the reference date, in ascending order, each tagged
  \<open>previous\<close> and with the date key of that month and its year.

  \<open>createCalendarGrid\<close> does not take the previous month from the reference date: it
  takes the clock (\<open>new Date()\<close>) and sets its month to the month of the reference date
  minus one. The clock keeps its own day of the month and year. On 31 March 2024, with the
  reference date 31 March 2024 (a month that starts on a Friday, index 4): "31 February
  2024" is 2 March 2024, so the days counted are those of March and the four leading
  cells are 28, 29, 30, 31 with the keys of March, where the last four days of February
  2024 are 26, 27, 28, 29.
\<close>

theorem createCalendarGrid_previous_month_of_clock:
  "getFullYear (Date 1711886400000) = Some 2024
   \<and> getMonth (Date 1711886400000) = Some 2
   \<and> getDate (Date 1711886400000) = Some 31
   \<and> index (getFirstWeekDayInMonth (Date 1711886400000)) = 4
   \<and> map_sum id (take 4)
        (createCalendarGrid (Date 1711886400000) 31 (Date 1714435200000) (Date 1711886400000) [] 35)
     = Inr [\<lparr>classList = [''monthView_day'', ''previous''], day_date_number = ''28'',
              dataset_date = Some ''28-03-2024''\<rparr>,
            \<lparr>classList = [''monthView_day'', ''previous''], day_date_number = ''29'',
              dataset_date = Some ''29-03-2024''\<rparr>,
            \<lparr>classList = [''monthView_day'', ''previous''], day_date_number = ''30'',
              dataset_date = Some ''30-03-2024''\<rparr>,
            \<lparr>classList = [''monthView_day'', ''previous''], day_date_number = ''31'',
              dataset_date = Some ''31-03-2024''\<rparr>]"
proof -
  have g: "setMonth (Date 1711886400000) (numPlus (getMonth (Date 1711886400000)) (- 1))
           = Date 1709380800000"
    by (simp add: getMonth_def numPlus_def fields_2024_03_31 setMonth_2024_03_31)
  have r: "drop (nat (max (int (length [1..31::int]) - 4) 0)) [1..31] = [28, 29, 30, 31::int]"
    by code_simp
  have td: "numPlus (numPlus (getDate (Date 1711886400000)) 4) (- 1) = Some 34"
    by (simp add: getDate_def numPlus_def fields_2024_03_31)
  have n4: "nat 4 = 4" by simp
  have grid: "createCalendarGrid (Date 1711886400000) 31 (Date 1714435200000) (Date 1711886400000) [] 35
    = addToday (Some 34)
        (monthLoop ''next'' (Date 1714435200000) [0..<nat (35 - int (length (monthLoop ''current'' (Date 1711886400000) [0..<nat 31]
            [\<lparr>classList = [''monthView_day'', ''previous''], day_date_number = ''28'',
              dataset_date = Some ''28-03-2024''\<rparr>,
            \<lparr>classList = [''monthView_day'', ''previous''], day_date_number = ''29'',
              dataset_date = Some ''29-03-2024''\<rparr>,
            \<lparr>classList = [''monthView_day'', ''previous''], day_date_number = ''30'',
              dataset_date = Some ''30-03-2024''\<rparr>,
            \<lparr>classList = [''monthView_day'', ''previous''], day_date_number = ''31'',
              dataset_date = Some ''31-03-2024''\<rparr>])))]
          (monthLoop ''current'' (Date 1711886400000) [0..<nat 31]
            [\<lparr>classList = [''monthView_day'', ''previous''], day_date_number = ''28'',
              dataset_date = Some ''28-03-2024''\<rparr>,
            \<lparr>classList = [''monthView_day'', ''previous''], day_date_number = ''29'',
              dataset_date = Some ''29-03-2024''\<rparr>,
            \<lparr>classList = [''monthView_day'', ''previous''], day_date_number = ''30'',
              dataset_date = Some ''30-03-2024''\<rparr>,
            \<lparr>classList = [''monthView_day'', ''previous''], day_date_number = ''31'',
              dataset_date = Some ''31-03-2024''\<rparr>]))"
    unfolding createCalendarGrid_def Let_def g getDaysInMonth_2024_03_02 option.case
      first_weekday_2024_03 index_def FirstWeekDay.case r n4 previous_cells_2024_03_31 sum.case td
    by (rule refl)
  show ?thesis
    unfolding grid monthLoop_append
    by (simp add: getFullYear_def getMonth_def getDate_def fields_2024_03_31 first_weekday_2024_03
        index_def addToday_def)
qed

section \<open>Properties of the date utilities\<close>

lemma WeekDay_range: "0 \<le> WeekDay f \<and> WeekDay f \<le> 6"
  by (simp add: WeekDay_def)

lemma weekday_cases:
  assumes "0 \<le> w" "w \<le> 6"
  shows "w = 0 \<or> w = 1 \<or> w = 2 \<or> w = 3 \<or> w = 4 \<or> w = 5 \<or> w = (6::int)"
  using assms by presburger

text \<open>
  On a month whose first day is a valid date, \<open>getFirstWeekDayInMonth\<close> gives the name of
  the week day of that day and its index counted from Monday.
\<close>

lemma getFirstWeekDayInMonth_valid:
  assumes "newDate3 (getFullYear d) (getMonth d) (Some 1) = Date f"
  shows "getFirstWeekDayInMonth d
         = Weekday_index
             ([''Sunday'', ''Monday'', ''Tuesday'', ''Wednesday'', ''Thursday'', ''Friday'',
               ''Saturday''] ! nat (WeekDay f))
             ((WeekDay f + 6) mod 7)"
proof -
  have "WeekDay f = 0 \<or> WeekDay f = 1 \<or> WeekDay f = 2 \<or> WeekDay f = 3 \<or> WeekDay f = 4
        \<or> WeekDay f = 5 \<or> WeekDay f = 6"
    using WeekDay_range[of f] by (intro weekday_cases) simp_all
  then show ?thesis
    unfolding getFirstWeekDayInMonth_def Let_def assms toStringFirstWord_def
    by (elim disjE) simp_all
qed

text \<open>That day is the first day of the month of the date, for a year that is not 0 to 99.\<close>

lemma first_of_month:
  assumes t: "abs t \<le> 8600000000000000"
    and y: "\<not> (0 \<le> YearFromTime t \<and> YearFromTime t \<le> 99)"
  shows "newDate3 (getFullYear (Date t)) (getMonth (Date t)) (Some 1)
         = Date ((Day t - (DateFromTime t - 1)) * msPerDay)"
proof -
  have m: "0 \<le> MonthFromTime t" "MonthFromTime t \<le> 11"
    using MonthFromTime_range[of t] by simp_all
  have d: "MakeDay (YearFromTime t) (MonthFromTime t) 1 = Day t - (DateFromTime t - 1)"
    using MakeDay_month[OF m, of "YearFromTime t" 1] Day_decomposition[of t]
    by (simp add: InLeapYear_def)
  have D: "1 \<le> DateFromTime t" "DateFromTime t \<le> 31" using DateFromTime_31[of t] by simp_all
  have "Day t * 86400000 \<le> t" "t < Day t * 86400000 + 86400000"
    using time_of_Day[of t] by (simp_all add: msPerDay_def)
  moreover have "(Day t - (DateFromTime t - 1)) * 86400000
      = Day t * 86400000 - DateFromTime t * 86400000 + 86400000"
    by (simp add: algebra_simps)
  ultimately have "abs ((Day t - (DateFromTime t - 1)) * 86400000) \<le> 8640000000000000"
    using t D by linarith
  then have c: "\<not> abs ((Day t - (DateFromTime t - 1)) * msPerDay) > maxTime"
    by (simp add: maxTime_def msPerDay_def)
  have fy: "MakeFullYear (YearFromTime t) = YearFromTime t"
    using y by (auto simp: MakeFullYear_def)
  have v: "MakeDate (MakeDay (YearFromTime t) (MonthFromTime t) 1) 0
           = (Day t - (DateFromTime t - 1)) * msPerDay"
    by (simp add: MakeDate_def d)
  show ?thesis
    using c by (simp add: newDate3_def getFullYear_def getMonth_def fy v TimeClip_def)
qed

theorem getFirstWeekDayInMonth_valid_witness:
  "getFirstWeekDayInMonth (Date 1715731200000) = Weekday_index ''Wednesday'' 2"
proof -
  have f: "newDate3 (getFullYear (Date 1715731200000)) (getMonth (Date 1715731200000)) (Some 1)
           = Date 1714521600000"
    by (simp add: getMonth_def getFullYear_def fields_2024_05_15
      newDate3_def MakeFullYear_def MakeDay_def MakeDate_def TimeClip_def maxTime_def msPerDay_def
      DayFromYear_def monthStart_def leapDay_def DaysInYear_def)
  have w: "WeekDay 1714521600000 = 3"
    by (simp add: WeekDay_def Day_def msPerDay_def)
  show ?thesis
    using getFirstWeekDayInMonth_valid[OF f] by (simp add: w)
qed

text \<open>
  \<open>getDaysInMonth\<close> gives the number of days of the month of the date, 29 for the
  February of a leap year, for a year that is not 0 to 99.
\<close>

theorem getDaysInMonth_month_length:
  assumes "abs t \<le> 8610000000000000"
    and "\<not> (0 \<le> YearFromTime t \<and> YearFromTime t \<le> 99)"
  shows "getDaysInMonth (Date t) = Some (DaysInMonth (MonthFromTime t) (InLeapYear t))"
proof -
  have "MakeFullYear (YearFromTime t) = YearFromTime t"
    using assms(2) by (auto simp: MakeFullYear_def)
  then show ?thesis
    using getDaysInMonth_value[OF assms(1)] by (simp add: InLeapYear_def)
qed

theorem getDaysInMonth_month_length_witness:
  "getDaysInMonth (Date 1709197200000) = Some 29"
  using getDaysInMonth_month_length[of 1709197200000]
  by (simp add: fields_2024_02_29 DaysInMonth_def)

theorem getDateString_examples:
  "getDateString (Some 5) (Some 3) (Some 2024) = ''05-03-2024''
   \<and> getDateString (Some 15) (Some 11) (Some 1999) = ''15-11-1999''"
  by (simp add: getDateString_def numberToString_def numToString_def natToString.simps
      digitChar_def)

text \<open>
  Claim C8: \<open>getFirstWeekDayInMonth\<close> returns the name of the week day of the first day
  of the month with an index from Monday = 0 to Sunday = 6, and when the name cannot be
  resolved the sentinel with the week day name "UNDEFINED" and the index 0, without
  raising.

  The default branch returns an object with the property \<open>weekDay\<close>, where the seven
  other branches (and the comment of the function) have \<open>weekday\<close>. For an invalid date,
  whose string starts with "Invalid", the property \<open>weekday\<close> of the result is
  \<open>undefined\<close>, not "UNDEFINED".
\<close>

theorem getFirstWeekDayInMonth_sentinel_property:
  "getFirstWeekDayInMonth InvalidDate = WeekDay_index ''UNDEFINED'' 0
   \<and> weekday (getFirstWeekDayInMonth InvalidDate) = JUndefined
   \<and> weekDay (getFirstWeekDayInMonth InvalidDate) = JStr ''UNDEFINED''
   \<and> index (getFirstWeekDayInMonth InvalidDate) = 0"
  by (simp add: getFirstWeekDayInMonth_def getMonth_def getFullYear_def newDate3_def
      toStringFirstWord_def weekday_def weekDay_def index_def)

end
